theory Spec2Isabelle
  imports Complex_Main
begin

section \<open>Python values shared by the components\<close>

text \<open>
  Exceptions are values. Everything the modelled code catches is caught with
  \<^verbatim>\<open>except Exception\<close>, and the only class told apart is
  \<^verbatim>\<open>requests.exceptions.Timeout\<close> (in \<^verbatim>\<open>utils/kuro_api.py\<close>), so an exception is
  either a timeout or some other subclass of \<^verbatim>\<open>Exception\<close>; both carry the text
  that \<^verbatim>\<open>str(e)\<close> gives. A Python \<^verbatim>\<open>str\<close> is a \<^typ>\<open>string\<close>, one element
  per character of the \<^verbatim>\<open>str\<close>.
\<close>

datatype pyexn = Timeout string | OtherException string

section \<open>Frame buffer pool (\<^verbatim>\<open>utils/image_buffer_pool.py\<close>)\<close>

text \<open>
  A numpy buffer is its \<^verbatim>\<open>shape\<close> tuple and its contents. The pool is the cap
  \<^verbatim>\<open>pool_size\<close> and the dict \<^verbatim>\<open>buffers\<close> from shape to the list of free buffers.
  \<^verbatim>\<open>np.zeros\<close> is a parameter of the model and may raise.
\<close>

type_synonym shape = "int list"

record 'a ndarray =
  shape :: shape
  contents :: 'a

record 'a ImageBufferPool =
  pool_size :: int
  buffers :: "shape \<rightharpoonup> 'a ndarray list"

text \<open>
  \<^verbatim>\<open>get_buffer\<close>: pop the last free buffer of the bucket of \<^verbatim>\<open>(height, width, channels)\<close>
  when the bucket exists and is not empty, else allocate.
\<close>

definition get_buffer ::
  "(shape \<Rightarrow> pyexn + 'a ndarray) \<Rightarrow> 'a ImageBufferPool \<Rightarrow> int \<Rightarrow> int \<Rightarrow> int
    \<Rightarrow> (pyexn + 'a ndarray) \<times> 'a ImageBufferPool" where
  "get_buffer np_zeros p height width channels =
     (let size = [height, width, channels] in
      case buffers p size of
        None \<Rightarrow> (np_zeros size, p)
      | Some bs \<Rightarrow>
          (if bs \<noteq> [] then (Inr (last bs), p\<lparr>buffers := (buffers p)(size \<mapsto> butlast bs)\<rparr>)
           else (np_zeros size, p)))"

text \<open>
  \<^verbatim>\<open>return_buffer\<close>: create the bucket of \<^verbatim>\<open>buffer.shape\<close> when it is missing, then
  append the buffer only if the bucket holds fewer than \<^verbatim>\<open>pool_size\<close> buffers.
\<close>

definition return_buffer :: "'a ImageBufferPool \<Rightarrow> 'a ndarray \<Rightarrow> 'a ImageBufferPool" where
  "return_buffer p buffer =
     (let size = shape buffer;
          bucket = (case buffers p size of None \<Rightarrow> [] | Some bs \<Rightarrow> bs)
      in if int (length bucket) < pool_size p
         then p\<lparr>buffers := (buffers p)(size \<mapsto> bucket @ [buffer])\<rparr>
         else p\<lparr>buffers := (buffers p)(size \<mapsto> bucket)\<rparr>)"

text \<open>
  Sequences of acquire and release calls. An acquire whose allocation raises leaves
  the pool as it was; the next call of the sequence sees that pool.
\<close>

datatype 'a pool_op = Acquire int int int | Release "'a ndarray"

fun pool_step ::
  "(shape \<Rightarrow> pyexn + 'a ndarray) \<Rightarrow> 'a ImageBufferPool \<Rightarrow> 'a pool_op \<Rightarrow> 'a ImageBufferPool" where
  "pool_step np_zeros p (Acquire h w c) = snd (get_buffer np_zeros p h w c)"
| "pool_step np_zeros p (Release b) = return_buffer p b"

fun pool_run ::
  "(shape \<Rightarrow> pyexn + 'a ndarray) \<Rightarrow> 'a ImageBufferPool \<Rightarrow> 'a pool_op list \<Rightarrow> 'a ImageBufferPool" where
  "pool_run np_zeros p [] = p"
| "pool_run np_zeros p (x # xs) = pool_run np_zeros (pool_step np_zeros p x) xs"

definition bucket_len :: "'a ImageBufferPool \<Rightarrow> shape \<Rightarrow> nat" where
  "bucket_len p s = (case buffers p s of None \<Rightarrow> 0 | Some bs \<Rightarrow> length bs)"

section \<open>Scan window: ticket deduplication (\<^verbatim>\<open>ui/scan_window.py\<close>)\<close>

text \<open>
  The fields of \<^verbatim>\<open>ScanWindow\<close> that its scanning methods read and write; the
  widget geometry and the hint label are left out. \<^verbatim>\<open>scan_timer_active\<close> is
  \<^verbatim>\<open>self.scan_timer.isActive()\<close>.
\<close>

record ScanWindow =
  last_qr_code :: "string option"
  processing_qr :: bool
  last_ticket :: string
  scan_timer_active :: bool

text \<open>
  What a method does to the outside: it emits the signal \<^verbatim>\<open>qr_detected\<close>, or
  schedules \<^verbatim>\<open>reset_processing\<close> with \<^verbatim>\<open>QTimer.singleShot\<close> (milliseconds).
\<close>

datatype sw_effect = QrDetected string | SingleShotResetProcessing nat

text \<open>\<^verbatim>\<open>qr_code[-24:]\<close>, the ticket, taken by the code only when \<^verbatim>\<open>len(qr_code) >= 24\<close>.\<close>

definition ticket_of :: "string \<Rightarrow> string" where
  "ticket_of qr_code = drop (length qr_code - 24) qr_code"

definition start_scanning :: "ScanWindow \<Rightarrow> ScanWindow" where
  "start_scanning s =
     s\<lparr>last_ticket := [], processing_qr := False, last_qr_code := None, scan_timer_active := True\<rparr>"

definition stop_scanning :: "ScanWindow \<Rightarrow> ScanWindow" where
  "stop_scanning s = s\<lparr>scan_timer_active := False\<rparr>"

text \<open>
  \<^verbatim>\<open>scan_qr_code\<close>, given what \<^verbatim>\<open>qr_scanner.scan_region\<close> returned in this cycle
  (\<open>None\<close>, or a string; the empty string is falsy as \<open>None\<close> is).
  \<open>emit_detected\<close> is the tail of the method, from \<^verbatim>\<open>self.last_qr_code = qr_code\<close> on.
\<close>

definition emit_detected :: "ScanWindow \<Rightarrow> string \<Rightarrow> ScanWindow \<times> sw_effect list" where
  "emit_detected s qr_code =
     (s\<lparr>last_qr_code := Some qr_code, processing_qr := True\<rparr>,
      [QrDetected qr_code, SingleShotResetProcessing 3000])"

definition scan_qr_code :: "ScanWindow \<Rightarrow> string option \<Rightarrow> ScanWindow \<times> sw_effect list" where
  "scan_qr_code s scanned =
     (if processing_qr s then (s, [])
      else case scanned of
        None \<Rightarrow> (s, [])
      | Some qr_code \<Rightarrow>
          if qr_code = [] then (s, [])
          else if 24 \<le> length qr_code then
            (let ticket = ticket_of qr_code in
             if ticket = last_ticket s then (s, [])
             else emit_detected (s\<lparr>last_ticket := ticket\<rparr>) qr_code)
          else emit_detected s qr_code)"

definition reset_processing :: "ScanWindow \<Rightarrow> ScanWindow" where
  "reset_processing s =
     (let s1 = s\<lparr>processing_qr := False, last_qr_code := None\<rparr>
      in if \<not> scan_timer_active s1 then s1\<lparr>scan_timer_active := True\<rparr> else s1)"

text \<open>
  The calls that reach a scan window during a session: its own methods, and the
  assignment \<^verbatim>\<open>self.scan_window.last_ticket = ""\<close> that
  \<^verbatim>\<open>MainWindow.on_scan_result\<close> makes when an expired code starts the automatic retry.
  \<open>StartScanning\<close> and \<open>ClearLastTicket\<close> are the two resets of the last ticket.
\<close>

datatype sw_event =
  StartScanning | StopScanning | ScanQrCode "string option" | ResetProcessing | ClearLastTicket

fun sw_step :: "ScanWindow \<Rightarrow> sw_event \<Rightarrow> ScanWindow \<times> sw_effect list" where
  "sw_step s StartScanning = (start_scanning s, [])"
| "sw_step s StopScanning = (stop_scanning s, [])"
| "sw_step s (ScanQrCode scanned) = scan_qr_code s scanned"
| "sw_step s ResetProcessing = (reset_processing s, [])"
| "sw_step s ClearLastTicket = (s\<lparr>last_ticket := []\<rparr>, [])"

fun sw_run :: "ScanWindow \<Rightarrow> sw_event list \<Rightarrow> ScanWindow \<times> sw_effect list" where
  "sw_run s [] = (s, [])"
| "sw_run s (e # es) =
     (case sw_step s e of (s1, out1) \<Rightarrow>
        (case sw_run s1 es of (s2, out2) \<Rightarrow> (s2, out1 @ out2)))"

fun is_reset :: "sw_event \<Rightarrow> bool" where
  "is_reset StartScanning = True"
| "is_reset ClearLastTicket = True"
| "is_reset _ = False"

text \<open>Events between two decoded payloads: cycles that decode nothing, and the timers.\<close>

fun is_idle :: "sw_event \<Rightarrow> bool" where
  "is_idle (ScanQrCode None) = True"
| "is_idle ResetProcessing = True"
| "is_idle StopScanning = True"
| "is_idle _ = False"

text \<open>The payloads emitted by \<^verbatim>\<open>qr_detected\<close>, in order, and the tickets among them.\<close>

fun emitted :: "sw_effect list \<Rightarrow> string list" where
  "emitted [] = []"
| "emitted (QrDetected q # out) = q # emitted out"
| "emitted (SingleShotResetProcessing ms # out) = emitted out"

definition emitted_tickets :: "sw_effect list \<Rightarrow> string list" where
  "emitted_tickets out = map ticket_of (filter (\<lambda>q. 24 \<le> length q) (emitted out))"

section \<open>Python control flow and JSON values\<close>

text \<open>
  A computation with state \<open>'s\<close> that returns a value or raises: the state after
  it, and \<open>Inl e\<close> for an exception that left it. \<open>py_try\<close> is
  \<^verbatim>\<open>try: ... except Exception as e: ...\<close>.
\<close>

type_synonym ('s, 'a) py = "'s \<Rightarrow> (pyexn + 'a) \<times> 's"

definition py_return :: "'a \<Rightarrow> ('s, 'a) py" where
  "py_return x s = (Inr x, s)"

definition py_bind :: "('s, 'a) py \<Rightarrow> ('a \<Rightarrow> ('s, 'b) py) \<Rightarrow> ('s, 'b) py" where
  "py_bind m f s = (case m s of (Inl e, s1) \<Rightarrow> (Inl e, s1) | (Inr x, s1) \<Rightarrow> f x s1)"

definition py_try :: "('s, 'a) py \<Rightarrow> (pyexn \<Rightarrow> ('s, 'a) py) \<Rightarrow> ('s, 'a) py" where
  "py_try m handler s = (case m s of (Inl e, s1) \<Rightarrow> handler e s1 | (Inr x, s1) \<Rightarrow> (Inr x, s1))"

definition py_lift :: "pyexn + 'a \<Rightarrow> ('s, 'a) py" where
  "py_lift r s = (r, s)"

fun str_exn :: "pyexn \<Rightarrow> string" where
  "str_exn (Timeout m) = m"
| "str_exn (OtherException m) = m"

text \<open>
  What \<^verbatim>\<open>response.json()\<close> can give. A dict is a list of pairs with distinct keys.
\<close>

datatype json =
  JNull | JBool bool | JInt int | JNum rat | JStr string | JList "json list"
  | JDict "(string \<times> json) list"

text \<open>\<^verbatim>\<open>value == k\<close> for an integer literal \<open>k\<close>, as Python compares numbers.\<close>

fun py_eq_int :: "json \<Rightarrow> int \<Rightarrow> bool" where
  "py_eq_int (JInt n) k = (n = k)"
| "py_eq_int (JNum r) k = (r = of_int k)"
| "py_eq_int (JBool b) k = ((if b then 1 else 0) = k)"
| "py_eq_int _ k = False"

text \<open>
  The name of the Python type of a value, and a name between single quotes, as the
  messages of the interpreter show them.
\<close>

fun type_name :: "json \<Rightarrow> string" where
  "type_name JNull = ''NoneType''"
| "type_name (JBool b) = ''bool''"
| "type_name (JInt n) = ''int''"
| "type_name (JNum r) = ''float''"
| "type_name (JStr s) = ''str''"
| "type_name (JList xs) = ''list''"
| "type_name (JDict kvs) = ''dict''"

definition quoted :: "string \<Rightarrow> string" where
  "quoted name = CHR 0x27 # name @ [CHR 0x27]"

text \<open>
  \<^verbatim>\<open>obj.get(key, default)\<close>: only a dict has the method; on any other value the
  attribute lookup raises \<^verbatim>\<open>AttributeError\<close>, whose text names the type.
\<close>

definition attribute_error :: "json \<Rightarrow> string \<Rightarrow> pyexn" where
  "attribute_error obj attr =
     OtherException (quoted (type_name obj) @ '' object has no attribute '' @ quoted attr)"

fun dict_get :: "json \<Rightarrow> string \<Rightarrow> json \<Rightarrow> pyexn + json" where
  "dict_get (JDict kvs) key dflt =
     Inr (case map_of kvs key of None \<Rightarrow> dflt | Some v \<Rightarrow> v)"
| "dict_get obj key dflt = Inl (attribute_error obj ''get'')"

section \<open>Remote auth client (\<^verbatim>\<open>utils/kuro_api.py\<close>)\<close>

text \<open>
  The literals of the source that are Chinese text are named constants here, spelled
  in English; no property below depends on their spelling.
\<close>

definition TXT_REQUEST_FAILED :: string where
  "TXT_REQUEST_FAILED = ''request failed''"

definition TXT_REQUEST_TIMEOUT :: string where
  "TXT_REQUEST_TIMEOUT = ''request timed out''"

definition BASE_URL :: string where
  "BASE_URL = ''https://api.kurobbs.com''"

datatype http_method = POST | HEAD

datatype http_body = Form "(string \<times> string) list" | Raw string | NoBody

text \<open>
  A request as the client hands it to \<^verbatim>\<open>self.session\<close>: of \<^verbatim>\<open>self.headers\<close> only
  the \<^verbatim>\<open>token\<close> entry ever changes, so only that entry is recorded.
\<close>

record request =
  req_method :: http_method
  req_url :: string
  req_data :: http_body
  req_token :: "json option"
  req_timeout :: rat

text \<open>
  The HTTP layer is a parameter: given the requests sent so far and the next one, a
  POST raises or gives a response, whose \<^verbatim>\<open>.json()\<close> in turn raises or gives a
  value; a HEAD raises or returns. \<open>str_float\<close> is Python's \<^verbatim>\<open>str\<close> of a float.
\<close>

type_synonym response = "pyexn + json"

record network =
  http_post :: "request list \<Rightarrow> request \<Rightarrow> pyexn + response"
  http_head :: "request list \<Rightarrow> request \<Rightarrow> pyexn + unit"
  str_float :: "rat \<Rightarrow> string"

record KuroAPI =
  token :: json
  headers_token :: "json option"
  connection_warmed :: bool
  sent :: "request list"

definition posted :: "KuroAPI \<Rightarrow> string \<Rightarrow> http_body \<Rightarrow> rat \<Rightarrow> request" where
  "posted api url data timeout =
     \<lparr>req_method = POST, req_url = url, req_data = data,
      req_token = headers_token api, req_timeout = timeout\<rparr>"

definition session_post ::
  "network \<Rightarrow> string \<Rightarrow> http_body \<Rightarrow> rat \<Rightarrow> (KuroAPI, response) py" where
  "session_post net url data timeout api =
     (let req = posted api url data timeout
      in (http_post net (sent api) req, api\<lparr>sent := sent api @ [req]\<rparr>))"

definition session_head :: "network \<Rightarrow> string \<Rightarrow> rat \<Rightarrow> (KuroAPI, unit) py" where
  "session_head net url timeout api =
     (let req = \<lparr>req_method = HEAD, req_url = url, req_data = NoBody,
                 req_token = headers_token api, req_timeout = timeout\<rparr>
      in (http_head net (sent api) req, api\<lparr>sent := sent api @ [req]\<rparr>))"

definition response_json :: "response \<Rightarrow> (KuroAPI, json) py" where
  "response_json response = py_lift response"

definition failure_result :: "string \<Rightarrow> json" where
  "failure_result msg = JDict [(''code'', JInt (- 1)), (''msg'', JStr msg)]"

definition failed_text :: "pyexn \<Rightarrow> string" where
  "failed_text e = TXT_REQUEST_FAILED @ '': '' @ str_exn e"

definition timeout_text :: "network \<Rightarrow> rat \<Rightarrow> string" where
  "timeout_text net timeout = TXT_REQUEST_TIMEOUT @ ''(>'' @ str_float net timeout @ ''s)''"

definition warm_up_connection :: "network \<Rightarrow> (KuroAPI, unit) py" where
  "warm_up_connection net =
     py_try
       (py_bind (session_head net (BASE_URL @ ''/user/role/roleInfos'') 0.3)
          (\<lambda>_ api. (Inr (), api\<lparr>connection_warmed := True\<rparr>)))
       (\<lambda>e. py_return ())"

definition set_token :: "network \<Rightarrow> json \<Rightarrow> (KuroAPI, unit) py" where
  "set_token net tok api =
     (let api1 = api\<lparr>token := tok, headers_token := Some tok\<rparr>
      in if \<not> connection_warmed api1 then warm_up_connection net api1 else (Inr (), api1))"

definition login :: "network \<Rightarrow> string \<Rightarrow> string \<Rightarrow> (KuroAPI, json) py" where
  "login net mobile code =
     py_try
       (py_bind (session_post net (BASE_URL @ ''/user/sdkLogin'')
                   (Form [(''mobile'', mobile), (''code'', code)]) 5) (\<lambda>response.
        py_bind (response_json response) (\<lambda>result.
        py_bind (py_lift (dict_get result ''code'' JNull)) (\<lambda>c.
          if py_eq_int c 200
          then py_bind (py_lift (dict_get result ''data'' (JDict []))) (\<lambda>data.
               py_bind (py_lift (dict_get data ''token'' (JStr []))) (\<lambda>tok.
               py_bind (set_token net tok) (\<lambda>_. py_return result)))
          else py_return result))))
       (\<lambda>e. py_return (failure_result (failed_text e)))"

text \<open>
  The loop shared, line for line, by \<^verbatim>\<open>get_role_infos\<close> and \<^verbatim>\<open>scan_login\<close>, over
  the timeouts still to try: a response that parses is returned; a timeout records
  \<^verbatim>\<open>last_error\<close> and goes on to the next timeout, if any (the \<^verbatim>\<open>continue\<close> and the
  end of the last iteration both lead there); any other exception records
  \<^verbatim>\<open>last_error\<close> and breaks. After the loop the failure dict is returned, with
  \<^verbatim>\<open>last_error or "..."\<close> as its message.
\<close>

definition after_loop :: "string option \<Rightarrow> json" where
  "after_loop last_error =
     failure_result (case last_error of
        None \<Rightarrow> TXT_REQUEST_FAILED
      | Some m \<Rightarrow> if m = [] then TXT_REQUEST_FAILED else m)"

fun retry_loop ::
  "network \<Rightarrow> string \<Rightarrow> http_body \<Rightarrow> string option \<Rightarrow> rat list \<Rightarrow> (KuroAPI, json) py" where
  "retry_loop net url data last_error [] api = (Inr (after_loop last_error), api)"
| "retry_loop net url data last_error (timeout # timeouts) api =
     (case py_bind (session_post net url data timeout) response_json api of
        (Inr result, api1) \<Rightarrow> (Inr result, api1)
      | (Inl (Timeout m), api1) \<Rightarrow>
          retry_loop net url data (Some (timeout_text net timeout)) timeouts api1
      | (Inl (OtherException m), api1) \<Rightarrow>
          (Inr (after_loop (Some (failed_text (OtherException m)))), api1))"

definition role_infos_url :: string where
  "role_infos_url = BASE_URL @ ''/user/auth/roleInfos''"

definition role_infos_data :: "string \<Rightarrow> http_body" where
  "role_infos_data qr_code = Form [(''qrCode'', qr_code)]"

definition get_role_infos :: "network \<Rightarrow> string \<Rightarrow> bool \<Rightarrow> (KuroAPI, json) py" where
  "get_role_infos net qr_code smart_retry =
     retry_loop net role_infos_url (role_infos_data qr_code) None
       (if smart_retry then [0.6, 1.2, 2.0] else [1.0])"

definition scan_login_url :: string where
  "scan_login_url = BASE_URL @ ''/user/auth/scanLogin''"

definition scan_login_data :: "string \<Rightarrow> string \<Rightarrow> bool \<Rightarrow> http_body" where
  "scan_login_data qr_code verify_code auto_login =
     Form [(''autoLogin'', if auto_login then ''true'' else ''false''), (''qrCode'', qr_code),
           (''id'', []), (''verifyCode'', verify_code)]"

definition scan_login :: "network \<Rightarrow> string \<Rightarrow> string \<Rightarrow> bool \<Rightarrow> bool \<Rightarrow> (KuroAPI, json) py" where
  "scan_login net qr_code verify_code auto_login smart_retry =
     retry_loop net scan_login_url (scan_login_data qr_code verify_code auto_login) None
       (if smart_retry then [0.8, 1.5, 2.5] else [1.5])"

definition send_sms :: "network \<Rightarrow> (KuroAPI, json) py" where
  "send_sms net =
     py_try
       (py_bind (session_post net (BASE_URL @ ''/user/sms/scanSms'') (Raw ''geeTestData='') 5)
          response_json)
       (\<lambda>e. py_return (failure_result (failed_text e)))"

text \<open>
  The outcome of one attempt of the loop, seen from the client: what the POST, and
  then \<^verbatim>\<open>.json()\<close> on its response, raise or give.
\<close>

definition attempt :: "network \<Rightarrow> KuroAPI \<Rightarrow> string \<Rightarrow> http_body \<Rightarrow> rat \<Rightarrow> pyexn + json" where
  "attempt net api url data timeout =
     (case http_post net (sent api) (posted api url data timeout) of
        Inl e \<Rightarrow> Inl e
      | Inr response \<Rightarrow> response)"

text \<open>
  Example environments: a client that has sent nothing, and HTTP layers.
  \<open>shown_timeout\<close> is \<^verbatim>\<open>str\<close> on the timeouts of the two ladders.
\<close>

definition shown_timeout :: "rat \<Rightarrow> string" where
  "shown_timeout r =
     (if r = 0.6 then ''0.6'' else if r = 1.2 then ''1.2'' else if r = 2.0 then ''2.0''
      else if r = 0.8 then ''0.8'' else if r = 1.5 then ''1.5'' else if r = 2.5 then ''2.5''
      else if r = 1.0 then ''1.0'' else ''?'')"

definition fresh_api :: KuroAPI where
  "fresh_api = \<lparr>token = JStr [], headers_token = None, connection_warmed = False, sent = []\<rparr>"

definition dead_network :: network where
  "dead_network =
     \<lparr>http_post = (\<lambda>h q. Inl (Timeout ''read timed out'')),
      http_head = (\<lambda>h q. Inl (Timeout ''read timed out'')),
      str_float = shown_timeout\<rparr>"

definition refusing_network :: network where
  "refusing_network =
     \<lparr>http_post = (\<lambda>h q. Inl (OtherException ''connection refused'')),
      http_head = (\<lambda>h q. Inl (OtherException ''connection refused'')),
      str_float = shown_timeout\<rparr>"

section \<open>Login thread and its caller (\<^verbatim>\<open>ui/main_window.py\<close>)\<close>

text \<open>
  The dict a \<^verbatim>\<open>ScanThread\<close> emits with \<^verbatim>\<open>scan_result\<close>: \<^verbatim>\<open>need_sms\<close> is false when
  the key is absent. A log line is its leading mark (or the newline that the
  performance report is sent after) and the value formatted after it. The texts are
  spelled in English, as above.
\<close>

definition TXT_TOKEN_EXPIRED :: string where
  "TXT_TOKEN_EXPIRED = ''Token expired''"

definition TXT_QR_EXPIRED :: string where
  "TXT_QR_EXPIRED = ''QR code expired''"


definition TXT_VERIFY_FAILED :: string where
  "TXT_VERIFY_FAILED = ''validation failed''"

definition TXT_LOGIN_OK :: string where
  "TXT_LOGIN_OK = ''login succeeded''"

definition TXT_NEED_SMS :: string where
  "TXT_NEED_SMS = ''SMS verification code needed''"

definition TXT_LOGIN_FAILED :: string where
  "TXT_LOGIN_FAILED = ''login failed''"

definition TXT_SCAN_FAILED :: string where
  "TXT_SCAN_FAILED = ''scan failed''"


record result_dict =
  success :: bool
  message :: json
  need_sms :: bool

datatype log_mark = Cross | Check | Warning | Newline

datatype thread_signal = LogMessage log_mark json | ScanResult result_dict

text \<open>
  The calls of the client's methods are logged beside the HTTP requests, so that a
  call of \<^verbatim>\<open>scan_login\<close>, which may send up to three requests, counts once.
\<close>

datatype api_call = CallGetRoleInfos string | CallScanLogin string string | CallSendSms

record world =
  w_api :: KuroAPI
  w_signals :: "thread_signal list"
  w_calls :: "api_call list"

record ScanThread =
  st_qr_code :: string
  st_verify_code :: string
  st_skip_role_check :: bool

text \<open>
  The performance monitor, as the thread sees it: whether the module was imported,
  and what \<^verbatim>\<open>get_last_scan_summary()\<close> returns after \<^verbatim>\<open>end_scan\<close>. Its other calls
  (\<^verbatim>\<open>mark_api_roleinfo_done\<close>, \<^verbatim>\<open>mark_api_scanlogin_done\<close>, \<^verbatim>\<open>end_scan\<close>) keep times
  and counts inside the monitor, return nothing and raise nothing, and are left out.
\<close>

record perf_monitor =
  PERF_MONITOR_AVAILABLE :: bool
  get_last_scan_summary :: string

definition emit :: "thread_signal \<Rightarrow> (world, unit) py" where
  "emit sig w = (Inr (), w\<lparr>w_signals := w_signals w @ [sig]\<rparr>)"

definition kuro_api :: "api_call \<Rightarrow> (KuroAPI, 'a) py \<Rightarrow> (world, 'a) py" where
  "kuro_api call m w =
     (case m (w_api w) of
        (r, api1) \<Rightarrow> (r, w\<lparr>w_api := api1, w_calls := w_calls w @ [call]\<rparr>))"

definition report :: "log_mark \<Rightarrow> json \<Rightarrow> result_dict \<Rightarrow> (world, unit) py" where
  "report mark text res = py_bind (emit (LogMessage mark text)) (\<lambda>_. emit (ScanResult res))"

text \<open>
  The first half of \<^verbatim>\<open>ScanThread.run\<close>, taken when \<^verbatim>\<open>skip_role_check\<close> is false:
  \<open>True\<close> when the method goes on to the confirmation, \<open>False\<close> when it returned.
\<close>

definition validate :: "network \<Rightarrow> ScanThread \<Rightarrow> (world, bool) py" where
  "validate net self =
     py_bind (kuro_api (CallGetRoleInfos (st_qr_code self))
                (get_role_infos net (st_qr_code self) True)) (\<lambda>role_result.
     py_bind (py_lift (dict_get role_result ''code'' JNull)) (\<lambda>c.
       if py_eq_int c 220 then
         py_bind (report Cross (JStr TXT_TOKEN_EXPIRED)
                    \<lparr>success = False, message = JStr TXT_TOKEN_EXPIRED, need_sms = False\<rparr>)
           (\<lambda>_. py_return False)
       else if py_eq_int c 2209 then
         py_bind (report Cross (JStr TXT_QR_EXPIRED)
                    \<lparr>success = False, message = JStr TXT_QR_EXPIRED, need_sms = False\<rparr>)
           (\<lambda>_. py_return False)
       else if \<not> py_eq_int c 200 then
         py_bind (py_lift (dict_get role_result ''msg'' (JStr TXT_VERIFY_FAILED))) (\<lambda>msg.
         py_bind (report Cross msg \<lparr>success = False, message = msg, need_sms = False\<rparr>)
           (\<lambda>_. py_return False))
       else py_return True))"

text \<open>
  The second half: the confirmation. \<open>confirm_outcome\<close> is what follows the call
  \<^verbatim>\<open>kuro_api.scan_login(self.qr_code, self.verify_code)\<close>, and \<open>retry_without_code\<close>
  the branch taken when a verification code was given and did not succeed.
\<close>

definition retry_without_code :: "network \<Rightarrow> ScanThread \<Rightarrow> (world, unit) py" where
  "retry_without_code net self =
     py_bind (kuro_api (CallScanLogin (st_qr_code self) [])
                (scan_login net (st_qr_code self) [] False True)) (\<lambda>scan_result_retry.
     py_bind (py_lift (dict_get scan_result_retry ''code'' JNull)) (\<lambda>c2.
       if py_eq_int c2 200 then
         report Check (JStr TXT_LOGIN_OK)
           \<lparr>success = True, message = JStr TXT_LOGIN_OK, need_sms = False\<rparr>
       else
         py_bind (py_lift (dict_get scan_result_retry ''msg'' (JStr TXT_LOGIN_FAILED))) (\<lambda>msg.
         report Cross msg \<lparr>success = False, message = msg, need_sms = False\<rparr>)))"

definition confirm_outcome ::
  "network \<Rightarrow> perf_monitor \<Rightarrow> ScanThread \<Rightarrow> json \<Rightarrow> (world, unit) py" where
  "confirm_outcome net pm self scan_result =
     py_bind (py_lift (dict_get scan_result ''code'' JNull)) (\<lambda>c.
       if py_eq_int c 200 then
         py_bind (report Check (JStr TXT_LOGIN_OK)
                    \<lparr>success = True, message = JStr TXT_LOGIN_OK, need_sms = False\<rparr>) (\<lambda>_.
           if PERF_MONITOR_AVAILABLE pm
           then emit (LogMessage Newline (JStr (get_last_scan_summary pm)))
           else py_return ())
       else if py_eq_int c 2240 then
         report Warning (JStr TXT_NEED_SMS)
           \<lparr>success = False, message = JStr TXT_NEED_SMS, need_sms = True\<rparr>
       else if st_verify_code self \<noteq> [] then retry_without_code net self
       else
         py_bind (py_lift (dict_get scan_result ''msg'' (JStr TXT_SCAN_FAILED))) (\<lambda>msg.
         report Cross msg \<lparr>success = False, message = msg, need_sms = False\<rparr>))"

definition confirm :: "network \<Rightarrow> perf_monitor \<Rightarrow> ScanThread \<Rightarrow> (world, unit) py" where
  "confirm net pm self =
     py_bind (kuro_api (CallScanLogin (st_qr_code self) (st_verify_code self))
                (scan_login net (st_qr_code self) (st_verify_code self) False True))
       (confirm_outcome net pm self)"

text \<open>
  \<open>reaches_confirm\<close> is the guard of the first half: the validation, or nothing
  when \<^verbatim>\<open>skip_role_check\<close> is set.
\<close>

definition reaches_confirm :: "network \<Rightarrow> ScanThread \<Rightarrow> (world, bool) py" where
  "reaches_confirm net self =
     (if \<not> st_skip_role_check self then validate net self else py_return True)"

definition run :: "network \<Rightarrow> perf_monitor \<Rightarrow> ScanThread \<Rightarrow> (world, unit) py" where
  "run net pm self =
     py_try
       (py_bind (reaches_confirm net self)
          (\<lambda>go_on. if go_on then confirm net pm self else py_return ()))
       (\<lambda>e. report Cross (JStr (str_exn e))
               \<lparr>success = False, message = JStr (str_exn e), need_sms = False\<rparr>)"





text \<open>
  \<^verbatim>\<open>needle in value\<close> for a string literal \<open>needle\<close>: substring of a string, member
  of a list, key of a dict; on any other value the test raises \<^verbatim>\<open>TypeError\<close>.
\<close>

fun starts_with :: "string \<Rightarrow> string \<Rightarrow> bool" where
  "starts_with [] s = True"
| "starts_with (c # cs) [] = False"
| "starts_with (c # cs) (d # ds) = (c = d \<and> starts_with cs ds)"

fun contains :: "string \<Rightarrow> string \<Rightarrow> bool" where
  "contains needle [] = (needle = [])"
| "contains needle (c # cs) = (starts_with needle (c # cs) \<or> contains needle cs)"









text \<open>
  An outcome of a call is a JSON object, and it carries the status code \<open>k\<close>
  (\<^verbatim>\<open>outcome.get("code") == k\<close>).
\<close>

fun is_dict :: "json \<Rightarrow> bool" where
  "is_dict (JDict kvs) = True"
| "is_dict _ = False"

definition has_code :: "json \<Rightarrow> int \<Rightarrow> bool" where
  "has_code outcome k =
     (case dict_get outcome ''code'' JNull of Inl e \<Rightarrow> False | Inr c \<Rightarrow> py_eq_int c k)"






text \<open>
  More example environments: a performance monitor that has recorded no scan, a
  world in which nothing has happened, two payloads with different tickets, a window
  with no scan window open (the live scanner is the source of the detections), the
  thread of the first payload, the result that asks for a code, a user who gives
  one, and two services. The first asks for a verification code when a confirmation comes
  without one, and answers 200 otherwise; the second rejects every confirmation
  that carries a code, and answers 200 otherwise.
\<close>

definition idle_monitor :: perf_monitor where
  "idle_monitor = \<lparr>PERF_MONITOR_AVAILABLE = True, get_last_scan_summary = ''No scans yet''\<rparr>"

definition fresh_world :: world where
  "fresh_world = \<lparr>w_api = fresh_api, w_signals = [], w_calls = []\<rparr>"

definition example_qr :: string where
  "example_qr = ''G152#KUROaaaaaaaaaaaaaaaaaaaaaaaa''"






definition verify_code_of :: "request \<Rightarrow> string option" where
  "verify_code_of q = (case req_data q of Form kvs \<Rightarrow> map_of kvs ''verifyCode'' | _ \<Rightarrow> None)"


definition code_rejecting_network :: network where
  "code_rejecting_network =
     \<lparr>http_post = (\<lambda>h q. if verify_code_of q = Some ''123456''
                            then Inr (Inr (JDict [(''code'', JInt 500), (''msg'', JStr ''wrong code'')]))
                            else Inr (Inr (JDict [(''code'', JInt 200)]))),
      http_head = (\<lambda>h q. Inr ()),
      str_float = shown_timeout\<rparr>"

section \<open>Decode engine (\<^verbatim>\<open>utils/ai_qr_scanner.py\<close>, \<^verbatim>\<open>utils/qr_scanner.py\<close>)\<close>

text \<open>
  The marker test both scanners apply to a decoded string:
  \<^verbatim>\<open>"G152#KURO" in qr_data or "KURO" in qr_data\<close>.
\<close>

definition is_game_qr :: "string \<Rightarrow> bool" where
  "is_game_qr qr_data = (contains ''G152#KURO'' qr_data \<or> contains ''KURO'' qr_data)"

text \<open>
  Pictures (PIL images and numpy arrays alike) are values of a type \<open>'i\<close> of which
  nothing is assumed. The scanner is its configuration (what was loaded at start:
  \<^verbatim>\<open>wechat_detector\<close>, \<^verbatim>\<open>sr_net\<close>, the screenshot backends, each \<open>None\<close> when
  absent) and the library calls it makes, every one of which may raise:
  \<^item> \<open>dxgi_screenshot\<close>, \<open>fast_screenshot\<close>, \<open>lib_pil_grab\<close>: the three ways to
    grab a region (the DPI scaling of the last is inside it); DXGI may return \<open>None\<close>;
  \<^item> \<open>lib_resize_fit\<close>: \<^verbatim>\<open>img.resize\<close> to the size that fits 1280 by 720 and keeps
    the aspect ratio; \<open>lib_resize_40\<close>: \<^verbatim>\<open>img.resize\<close> to 40 percent of each side;
  \<^item> \<open>lib_to_cv\<close>, \<open>lib_to_gray\<close>, \<open>lib_adaptive_threshold\<close>, \<open>lib_bgr_to_gray\<close>,
    \<open>lib_contrast\<close>, \<open>lib_sharpness\<close>: the conversions and filters of the enhancement;
  \<^item> \<open>wechat_detector\<close>: \<^verbatim>\<open>detectAndDecode\<close>, giving the decoded strings;
    \<open>lib_pyzbar\<close>: \<^verbatim>\<open>decode\<close>, giving for each symbol found what
    \<^verbatim>\<open>.data.decode("utf-8")\<close> raises or returns;
  \<^item> \<open>as_completed\<close>: the order in which the submitted candidates complete.
\<close>

type_synonym region = "int \<times> int \<times> int \<times> int"

record 'i scanner =
  OPENCV_AVAILABLE :: bool
  ROI_DETECTOR_AVAILABLE :: bool
  wechat_detector :: "('i \<Rightarrow> pyexn + string list) option"
  sr_net :: "('i \<Rightarrow> pyexn + 'i) option"
  ai_enabled :: bool
  dxgi_screenshot :: "(region \<Rightarrow> pyexn + 'i option) option"
  fast_screenshot :: "(region \<Rightarrow> pyexn + 'i) option"
  lib_pil_grab :: "region \<Rightarrow> pyexn + 'i"
  lib_resize_fit :: "'i \<Rightarrow> pyexn + 'i"
  lib_resize_40 :: "'i \<Rightarrow> pyexn + 'i"
  lib_to_cv :: "'i \<Rightarrow> pyexn + 'i"
  lib_to_gray :: "'i \<Rightarrow> pyexn + 'i"
  lib_adaptive_threshold :: "'i \<Rightarrow> pyexn + 'i"
  lib_bgr_to_gray :: "'i \<Rightarrow> pyexn + 'i"
  lib_contrast :: "rat \<Rightarrow> 'i \<Rightarrow> pyexn + 'i"
  lib_sharpness :: "rat \<Rightarrow> 'i \<Rightarrow> pyexn + 'i"
  lib_pyzbar :: "'i \<Rightarrow> pyexn + (pyexn + string) list"
  as_completed :: "(string \<times> 'i) list \<Rightarrow> (string \<times> 'i) list"

text \<open>
  \<^verbatim>\<open>try_decode_qr\<close> of the AI scanner: the WeChat detector first, when there is
  one, then pyzbar. Each part sits in its own \<^verbatim>\<open>try\<close> whose handler is \<^verbatim>\<open>pass\<close>, so
  an exception, an empty result and a string without the marker all fall through.
\<close>

definition wechat_decode :: "'i scanner \<Rightarrow> 'i \<Rightarrow> string option" where
  "wechat_decode sc img =
     (case wechat_detector sc of
        None \<Rightarrow> None
      | Some detectAndDecode \<Rightarrow>
          (case lib_to_cv sc img of
             Inl e \<Rightarrow> None
           | Inr img_cv \<Rightarrow>
               (case detectAndDecode img_cv of
                  Inl e \<Rightarrow> None
                | Inr [] \<Rightarrow> None
                | Inr (qr_data # others) \<Rightarrow> if is_game_qr qr_data then Some qr_data else None)))"

definition pyzbar_decode :: "'i scanner \<Rightarrow> 'i \<Rightarrow> string option" where
  "pyzbar_decode sc img =
     (case lib_pyzbar sc img of
        Inl e \<Rightarrow> None
      | Inr [] \<Rightarrow> None
      | Inr (Inl e # others) \<Rightarrow> None
      | Inr (Inr qr_data # others) \<Rightarrow> if is_game_qr qr_data then Some qr_data else None)"

definition try_decode_qr :: "'i scanner \<Rightarrow> 'i \<Rightarrow> string option" where
  "try_decode_qr sc img =
     (case wechat_decode sc img of
        Some qr_data \<Rightarrow> Some qr_data
      | None \<Rightarrow> pyzbar_decode sc img)"

text \<open>\<^verbatim>\<open>QRScanner.try_decode_qr\<close> of the plain scanner is the pyzbar part alone.\<close>

definition plain_try_decode_qr :: "'i scanner \<Rightarrow> 'i \<Rightarrow> string option" where
  "plain_try_decode_qr sc img = pyzbar_decode sc img"

text \<open>
  \<^verbatim>\<open>try_decode_parallel\<close>: every candidate is submitted; the results are read in
  completion order and the first truthy one is returned with the name of its
  candidate (the others are cancelled or ignored).
\<close>

fun first_decoded :: "'i scanner \<Rightarrow> (string \<times> 'i) list \<Rightarrow> (string \<times> string) option" where
  "first_decoded sc [] = None"
| "first_decoded sc ((method_name, img) # rest) =
     (case try_decode_qr sc img of
        None \<Rightarrow> first_decoded sc rest
      | Some result \<Rightarrow> if result \<noteq> [] then Some (result, method_name) else first_decoded sc rest)"

definition try_decode_parallel ::
  "'i scanner \<Rightarrow> (string \<times> 'i) list \<Rightarrow> (string \<times> string) option" where
  "try_decode_parallel sc images = first_decoded sc (as_completed sc images)"

text \<open>
  What a scan does, in order: the screenshot taken, the race started on the named
  candidates, the enhancement entered and each candidate it computes, each
  sequential decode of an enhanced candidate (by its index in the list), and the
  detection handed to the ROI detector.
\<close>

datatype scan_event =
  Screenshot string
  | Race "string list"
  | EnhanceImageAi
  | Computed string
  | DecodeOne nat
  | RoiAddDetection int int int int

definition trace :: "scan_event \<Rightarrow> (scan_event list, unit) py" where
  "trace ev evs = (Inr (), evs @ [ev])"

definition apply_super_resolution :: "'i scanner \<Rightarrow> 'i \<Rightarrow> 'i" where
  "apply_super_resolution sc img =
     (case sr_net sc of
        None \<Rightarrow> img
      | Some forward \<Rightarrow>
          if \<not> ai_enabled sc then img
          else (case forward img of Inl e \<Rightarrow> img | Inr output \<Rightarrow> output))"

text \<open>
  \<^verbatim>\<open>_enhance_image_basic\<close>: the list built so far is returned when a step raises.
\<close>

definition enhance_image_basic :: "'i scanner \<Rightarrow> 'i \<Rightarrow> (scan_event list, 'i list) py" where
  "enhance_image_basic sc img =
     py_try
       (py_bind (py_lift (lib_contrast sc 2.0 img)) (\<lambda>c.
        py_bind (trace (Computed ''contrast'')) (\<lambda>_.
        py_try
          (py_bind (py_lift (lib_sharpness sc 2.0 img)) (\<lambda>s.
           py_bind (trace (Computed ''sharpness'')) (\<lambda>_.
           py_try
             (py_bind (py_lift (lib_contrast sc 1.8 img)) (\<lambda>temp.
              py_bind (py_lift (lib_sharpness sc 1.8 temp)) (\<lambda>temp2.
              py_bind (trace (Computed ''combined'')) (\<lambda>_.
              py_return [img, c, s, temp2]))))
             (\<lambda>e. py_return [img, c, s]))))
          (\<lambda>e. py_return [img, c]))))
       (\<lambda>e. py_return [img])"

text \<open>
  \<^verbatim>\<open>enhance_image_ai\<close>: without OpenCV, or when a step raises, the basic
  enhancement; else the picture, its adaptive binarization, and, when \<^verbatim>\<open>sr_net\<close> is
  loaded, the gray picture of its super-resolution.
\<close>

definition enhance_image_ai :: "'i scanner \<Rightarrow> 'i \<Rightarrow> (scan_event list, 'i list) py" where
  "enhance_image_ai sc img =
     py_bind (trace EnhanceImageAi) (\<lambda>_.
       if \<not> OPENCV_AVAILABLE sc then enhance_image_basic sc img
       else
         py_try
           (py_bind (py_lift (lib_to_cv sc img)) (\<lambda>img_cv.
            py_bind (py_lift (lib_to_gray sc img)) (\<lambda>gray.
            py_bind (py_lift (lib_adaptive_threshold sc gray)) (\<lambda>binary.
            py_bind (trace (Computed ''binary'')) (\<lambda>_.
              if sr_net sc \<noteq> None then
                py_bind (py_lift (lib_bgr_to_gray sc (apply_super_resolution sc img_cv))) (\<lambda>sr_gray.
                py_bind (trace (Computed ''sr'')) (\<lambda>_.
                py_return [img, binary, sr_gray]))
              else py_return [img, binary])))))
           (\<lambda>e. enhance_image_basic sc img))"

text \<open>The screenshot: DXGI, then BitBlt, then PIL, each only when the one before fails.\<close>

definition shot :: "string \<Rightarrow> 'i \<Rightarrow> (scan_event list, 'i) py" where
  "shot screenshot_method img = py_bind (trace (Screenshot screenshot_method)) (\<lambda>_. py_return img)"

definition grab_pil :: "'i scanner \<Rightarrow> region \<Rightarrow> (scan_event list, 'i) py" where
  "grab_pil sc r = py_bind (py_lift (lib_pil_grab sc r)) (shot ''PIL'')"

definition grab_fast :: "'i scanner \<Rightarrow> region \<Rightarrow> (scan_event list, 'i) py" where
  "grab_fast sc r =
     (case fast_screenshot sc of
        None \<Rightarrow> grab_pil sc r
      | Some grab_region \<Rightarrow>
          (case grab_region r of Inl e \<Rightarrow> grab_pil sc r | Inr img \<Rightarrow> shot ''BitBlt'' img))"

definition grab :: "'i scanner \<Rightarrow> region \<Rightarrow> (scan_event list, 'i) py" where
  "grab sc r =
     (case dxgi_screenshot sc of
        None \<Rightarrow> grab_fast sc r
      | Some grab_region \<Rightarrow>
          (case grab_region r of
             Inr (Some img) \<Rightarrow> shot ''DXGI'' img
           | Inr None \<Rightarrow> grab_fast sc r
           | Inl e \<Rightarrow> grab_fast sc r))"

text \<open>
  The sequential pass over \<^verbatim>\<open>enhanced_images[1:]\<close>, \<open>idx\<close> counting from 1: the
  first truthy result is returned.
\<close>

definition detected :: "'i scanner \<Rightarrow> region \<Rightarrow> string \<Rightarrow> (scan_event list, string option) py" where
  "detected sc r qr_code =
     (case r of (x, y, width, height) \<Rightarrow>
        if ROI_DETECTOR_AVAILABLE sc
        then py_bind (trace (RoiAddDetection x y width height)) (\<lambda>_. py_return (Some qr_code))
        else py_return (Some qr_code))"

fun decode_enhanced ::
  "'i scanner \<Rightarrow> region \<Rightarrow> nat \<Rightarrow> 'i list \<Rightarrow> (scan_event list, string option) py" where
  "decode_enhanced sc r idx [] = py_return None"
| "decode_enhanced sc r idx (enhanced_img # rest) =
     py_bind (trace (DecodeOne idx)) (\<lambda>_.
       case try_decode_qr sc enhanced_img of
         None \<Rightarrow> decode_enhanced sc r (Suc idx) rest
       | Some result \<Rightarrow>
           if result \<noteq> [] then detected sc r result else decode_enhanced sc r (Suc idx) rest)"

text \<open>
  \<^verbatim>\<open>scan_region\<close>: screenshot, the three candidates, the race; only when the race
  finds nothing, the enhancement of the fitted picture and the sequential pass. Any
  exception ends the scan with \<open>None\<close>.
\<close>

definition candidates_of :: "'i \<Rightarrow> 'i \<Rightarrow> 'i \<Rightarrow> (string \<times> 'i) list" where
  "candidates_of img img_1280 img_40 =
     [(''original'', img), (''1280x720'', img_1280), (''40%'', img_40)]"

definition scan_region :: "'i scanner \<Rightarrow> region \<Rightarrow> (scan_event list, string option) py" where
  "scan_region sc r =
     py_try
       (py_bind (grab sc r) (\<lambda>img.
        py_bind (py_lift (lib_resize_fit sc img)) (\<lambda>img_1280.
        py_bind (py_lift (lib_resize_40 sc img)) (\<lambda>img_40.
        py_bind (trace (Race (map fst (candidates_of img img_1280 img_40)))) (\<lambda>_.
          case try_decode_parallel sc (candidates_of img img_1280 img_40) of
            Some (qr_code, method) \<Rightarrow> detected sc r qr_code
          | None \<Rightarrow>
              py_bind (enhance_image_ai sc img_1280) (\<lambda>enhanced_images.
              decode_enhanced sc r 1 (tl enhanced_images)))))))
       (\<lambda>e. py_return None)"

text \<open>
  Example scanners over pictures numbered by \<^typ>\<open>nat\<close>. In \<open>noise_scanner\<close> every
  picture decodes, by pyzbar only, to a string without the marker; there is no
  WeChat detector, no model and no fast backend, and the filters number their
  results. \<open>blurred_scanner\<close> is the same with OpenCV and a detector that reads the
  payload from the binarized picture (number 31) only.
\<close>

definition noise_scanner :: "nat scanner" where
  "noise_scanner =
     \<lparr>OPENCV_AVAILABLE = False, ROI_DETECTOR_AVAILABLE = True,
      wechat_detector = None, sr_net = None, ai_enabled = False,
      dxgi_screenshot = None, fast_screenshot = None,
      lib_pil_grab = (\<lambda>r. Inr 1),
      lib_resize_fit = (\<lambda>i. Inr 2),
      lib_resize_40 = (\<lambda>i. Inr 3),
      lib_to_cv = (\<lambda>i. Inr (i + 10)),
      lib_to_gray = (\<lambda>i. Inr (i + 20)),
      lib_adaptive_threshold = (\<lambda>i. Inr 31),
      lib_bgr_to_gray = (\<lambda>i. Inr 32),
      lib_contrast = (\<lambda>f i. if f = 2 then Inr 41 else Inr 43),
      lib_sharpness = (\<lambda>f i. if f = 2 then Inr 42 else Inr 44),
      lib_pyzbar = (\<lambda>i. Inr [Inr ''https://example.com/promo'']),
      as_completed = (\<lambda>xs. xs)\<rparr>"

definition blurred_scanner :: "nat scanner" where
  "blurred_scanner =
     noise_scanner
       \<lparr>OPENCV_AVAILABLE := True,
        wechat_detector := Some (\<lambda>i. if i = 41 then Inr [example_qr] else Inr []),
        lib_to_cv := (\<lambda>i. Inr (i + 10))\<rparr>"

text \<open>
  \<open>sharp_scanner\<close>: pyzbar reads the payload from the 40 percent picture (number 3)
  only. \<open>model_scanner\<close>: \<open>blurred_scanner\<close> with a super-resolution model loaded.
\<close>

definition sharp_scanner :: "nat scanner" where
  "sharp_scanner =
     noise_scanner
       \<lparr>lib_pyzbar := (\<lambda>i. if i = 3 then Inr [Inr example_qr]
                              else Inr [Inr ''https://example.com/promo''])\<rparr>"

definition model_scanner :: "nat scanner" where
  "model_scanner = blurred_scanner\<lparr>sr_net := Some (\<lambda>i. Inr 50), ai_enabled := True\<rparr>"

text \<open>
  The point of a scan at which the three candidates are ready: the screenshot and
  both resizes went through. And the log at the start of the race.
\<close>

definition prepared ::
  "'i scanner \<Rightarrow> region \<Rightarrow> scan_event list \<Rightarrow> 'i \<Rightarrow> scan_event list \<Rightarrow> 'i \<Rightarrow> 'i \<Rightarrow> bool" where
  "prepared sc r evs img evs0 img_1280 img_40 =
     (grab sc r evs = (Inr img, evs0) \<and> lib_resize_fit sc img = Inr img_1280
        \<and> lib_resize_40 sc img = Inr img_40)"

definition raced :: "scan_event list \<Rightarrow> scan_event list" where
  "raced evs0 = evs0 @ [Race [''original'', ''1280x720'', ''40%'']]"

section \<open>ROI predictor (\<^verbatim>\<open>utils/smart_roi_detector.py\<close>)\<close>

text \<open>
  The predictor computes with Python floats. Their arithmetic is a parameter: a type
  \<open>'f\<close> of floats with the operations the code uses, of which nothing is assumed,
  so what is proved holds whatever the rounding. \<open>fdiv_int\<close> is \<^verbatim>\<open>a / b\<close> on two
  ints (the divisor not zero), \<open>fsub_int\<close> is int minus float, \<open>fadd_int\<close> and
  \<open>fmul_int\<close> int plus and times float, \<open>ftrunc\<close> is \<^verbatim>\<open>int(f)\<close>, \<open>flit\<close> is a
  float literal. Coordinates are the ints of a window geometry and clock readings are
  floats, so no operation overflows or meets a NaN.
\<close>

record 'f float_ops =
  fdiv_int :: "int \<Rightarrow> int \<Rightarrow> 'f"
  fsub_int :: "int \<Rightarrow> 'f \<Rightarrow> 'f"
  fadd_int :: "int \<Rightarrow> 'f \<Rightarrow> 'f"
  fmul_int :: "int \<Rightarrow> 'f \<Rightarrow> 'f"
  fsub :: "'f \<Rightarrow> 'f \<Rightarrow> 'f"
  fmul :: "'f \<Rightarrow> 'f \<Rightarrow> 'f"
  fabs :: "'f \<Rightarrow> 'f"
  fless :: "'f \<Rightarrow> 'f \<Rightarrow> bool"
  ftrunc :: "'f \<Rightarrow> int"
  flit :: "rat \<Rightarrow> 'f"

text \<open>A recorded position is \<^verbatim>\<open>(x, y, width, height, timestamp)\<close>.\<close>

type_synonym 'f position = "int \<times> int \<times> int \<times> int \<times> 'f"

type_synonym roi = "int \<times> int \<times> int \<times> int"

record 'f SmartROIDetector =
  history_size :: nat
  confidence_threshold :: nat
  position_history :: "'f position list"
  predicted_roi :: "roi option"
  prediction_confidence :: 'f
  total_predictions :: nat
  successful_predictions :: nat











definition reset :: "'f float_ops \<Rightarrow> 'f SmartROIDetector \<Rightarrow> 'f SmartROIDetector" where
  "reset ops d = d\<lparr>position_history := [], predicted_roi := None,
                   prediction_confidence := flit ops 0.0\<rparr>"










section \<open>Properties of the frame buffer pool\<close>

lemma get_buffer_pool_size: "pool_size (snd (get_buffer z p h w c)) = pool_size p"
  by (simp add: get_buffer_def Let_def split: option.splits)

lemma return_buffer_pool_size: "pool_size (return_buffer p b) = pool_size p"
  by (simp add: return_buffer_def Let_def)

lemma pool_step_pool_size: "pool_size (pool_step z p x) = pool_size p"
  by (cases x) (simp_all add: get_buffer_pool_size return_buffer_pool_size)

lemma get_buffer_bucket_len: "bucket_len (snd (get_buffer z p h w c)) s \<le> bucket_len p s"
  by (simp add: get_buffer_def bucket_len_def Let_def split: option.splits)

lemma return_buffer_bucket_len:
  "int (bucket_len (return_buffer p b) s) \<le> max (int (bucket_len p s)) (pool_size p)"
  by (simp add: return_buffer_def bucket_len_def Let_def split: option.splits)

lemma pool_step_bucket_len:
  "int (bucket_len (pool_step z p x) s) \<le> max (int (bucket_len p s)) (pool_size p)"
proof (cases x)
  case (Acquire h w c)
  have "bucket_len (snd (get_buffer z p h w c)) s \<le> bucket_len p s"
    by (rule get_buffer_bucket_len)
  with Acquire show ?thesis by simp
next
  case (Release b)
  then show ?thesis by (simp add: return_buffer_bucket_len)
qed

lemma pool_run_pool_size: "pool_size (pool_run z p xs) = pool_size p"
  by (induction xs arbitrary: p) (simp_all add: pool_step_pool_size)

lemma pool_run_bucket_len:
  "int (bucket_len (pool_run z p xs) s) \<le> max (int (bucket_len p s)) (pool_size p)"
proof (induction xs arbitrary: p)
  case Nil
  then show ?case by simp
next
  case (Cons x xs)
  have "int (bucket_len (pool_run z (pool_step z p x) xs) s)
          \<le> max (int (bucket_len (pool_step z p x) s)) (pool_size (pool_step z p x))"
    by (rule Cons.IH)
  also have "\<dots> \<le> max (int (bucket_len p s)) (pool_size p)"
    using pool_step_bucket_len [of z p x s] by (simp add: pool_step_pool_size)
  finally show ?case by simp
qed

lemma return_buffer_at_cap:
  assumes "buffers p (shape b) = Some bs" and "pool_size p \<le> int (length bs)"
  shows "return_buffer p b = p"
proof -
  have "(buffers p)(shape b \<mapsto> bs) = buffers p"
    using assms(1) by (simp add: map_upd_triv)
  with assms show ?thesis by (simp add: return_buffer_def Let_def)
qed

text \<open>
  Claim C9. Releasing a buffer into a bucket that already holds \<^verbatim>\<open>pool_size\<close> (or
  more) buffers leaves the pool as it was, buffer dropped. Hence over any sequence
  of acquire and release calls, and for every shape, a bucket is never longer than
  the larger of its length at the start and \<^verbatim>\<open>pool_size\<close>: no release makes it grow
  beyond the cap, and the cap itself never changes.
\<close>

theorem release_at_cap_keeps_pool:
  "(buffers p (shape b) = Some bs \<and> pool_size p \<le> int (length bs) \<longrightarrow> return_buffer p b = p)
   \<and> int (bucket_len (pool_run np_zeros p ops) s) \<le> max (int (bucket_len p s)) (pool_size p)
   \<and> pool_size (pool_run np_zeros p ops) = pool_size p"
  using return_buffer_at_cap [of p b bs] pool_run_bucket_len [of np_zeros p ops s]
    pool_run_pool_size [of np_zeros p ops]
  by blast

text \<open>
  The theorem at a pool with cap 1 whose bucket for shape \<open>(1, 1, 3)\<close> is full:
  the release changes nothing, and two more releases leave one buffer.
\<close>

theorem release_at_cap_keeps_pool_witness:
  "buffers \<lparr>pool_size = 1, buffers = [[1, 1, 3] \<mapsto> [\<lparr>shape = [1, 1, 3], contents = 7\<rparr>]]\<rparr>
      (shape \<lparr>shape = [1, 1, 3], contents = (9::nat)\<rparr>)
     = Some [\<lparr>shape = [1, 1, 3], contents = 7\<rparr>]
   \<and> pool_size \<lparr>pool_size = 1, buffers = [[1, 1, 3] \<mapsto> [\<lparr>shape = [1, 1, 3], contents = 7\<rparr>]]\<rparr>
       \<le> int (length [\<lparr>shape = [1, 1, 3], contents = (7::nat)\<rparr>])
   \<and> return_buffer \<lparr>pool_size = 1, buffers = [[1, 1, 3] \<mapsto> [\<lparr>shape = [1, 1, 3], contents = 7\<rparr>]]\<rparr>
         \<lparr>shape = [1, 1, 3], contents = (9::nat)\<rparr>
       = \<lparr>pool_size = 1, buffers = [[1, 1, 3] \<mapsto> [\<lparr>shape = [1, 1, 3], contents = 7\<rparr>]]\<rparr>
   \<and> int (bucket_len
         (pool_run (\<lambda>s. Inr \<lparr>shape = s, contents = 0\<rparr>)
            \<lparr>pool_size = 1, buffers = [[1, 1, 3] \<mapsto> [\<lparr>shape = [1, 1, 3], contents = 7\<rparr>]]\<rparr>
            [Release \<lparr>shape = [1, 1, 3], contents = (9::nat)\<rparr>,
             Release \<lparr>shape = [1, 1, 3], contents = 9\<rparr>])
         [1, 1, 3]) \<le> 1"
  using release_at_cap_keeps_pool
    [of "\<lparr>pool_size = 1, buffers = [[1, 1, 3] \<mapsto> [\<lparr>shape = [1, 1, 3], contents = 7\<rparr>]]\<rparr>"
        "\<lparr>shape = [1, 1, 3], contents = (9::nat)\<rparr>"
        "[\<lparr>shape = [1, 1, 3], contents = 7\<rparr>]"
        "\<lambda>s. Inr \<lparr>shape = s, contents = 0\<rparr>"
        "[Release \<lparr>shape = [1, 1, 3], contents = (9::nat)\<rparr>,
          Release \<lparr>shape = [1, 1, 3], contents = 9\<rparr>]"
        "[1, 1, 3]"]
  by (simp add: bucket_len_def)

section \<open>Properties of the scan window\<close>

lemma emitted_append: "emitted (a @ b) = emitted a @ emitted b"
  by (induction a rule: emitted.induct) simp_all

lemma emitted_tickets_append: "emitted_tickets (a @ b) = emitted_tickets a @ emitted_tickets b"
  by (simp add: emitted_tickets_def emitted_append)

lemma scan_qr_code_cases:
  "(scan_qr_code s scanned = (s, []))
   \<or> (\<exists>q. scanned = Some q \<and> q \<noteq> [] \<and> \<not> processing_qr s \<and> 24 \<le> length q \<and> ticket_of q \<noteq> last_ticket s
        \<and> scan_qr_code s scanned = emit_detected (s\<lparr>last_ticket := ticket_of q\<rparr>) q)
   \<or> (\<exists>q. scanned = Some q \<and> q \<noteq> [] \<and> \<not> processing_qr s \<and> length q < 24
        \<and> scan_qr_code s scanned = emit_detected s q)"
  by (auto simp: scan_qr_code_def Let_def split: option.splits)

lemma sw_step_ticket:
  assumes "\<not> is_reset e" and "sw_step s e = (s1, out)"
  shows "(emitted_tickets out = [] \<and> last_ticket s1 = last_ticket s)
       \<or> (emitted_tickets out = [last_ticket s1] \<and> last_ticket s1 \<noteq> last_ticket s)"
proof (cases e)
  case (ScanQrCode scanned)
  with assms(2) have eq: "scan_qr_code s scanned = (s1, out)" by simp
  from scan_qr_code_cases [of s scanned] show ?thesis
    using eq by (auto simp: emit_detected_def emitted_tickets_def)
qed (use assms in \<open>auto simp: stop_scanning_def reset_processing_def Let_def emitted_tickets_def\<close>)

lemma sw_run_tickets:
  "\<forall>e \<in> set es. \<not> is_reset e \<Longrightarrow> distinct_adj (last_ticket s # emitted_tickets (snd (sw_run s es)))"
proof (induction es arbitrary: s)
  case Nil
  then show ?case by (simp add: emitted_tickets_def)
next
  case (Cons e es)
  obtain s1 out1 where st: "sw_step s e = (s1, out1)" by (cases "sw_step s e")
  obtain s2 out2 where rn: "sw_run s1 es = (s2, out2)" by (cases "sw_run s1 es")
  have ih: "distinct_adj (last_ticket s1 # emitted_tickets out2)"
    using Cons.IH [of s1] Cons.prems rn by simp
  have ne: "\<not> is_reset e" using Cons.prems by simp
  from sw_step_ticket [OF ne st] show ?case
    using ih st rn by (auto simp: emitted_tickets_append)
qed

lemma sw_run_idle:
  "\<forall>e \<in> set es. is_idle e \<Longrightarrow> snd (sw_run s es) = [] \<and> last_ticket (fst (sw_run s es)) = last_ticket s"
proof (induction es arbitrary: s)
  case Nil
  then show ?case by simp
next
  case (Cons e es)
  have idle: "is_idle e" using Cons.prems by simp
  then have st: "snd (sw_step s e) = [] \<and> last_ticket (fst (sw_step s e)) = last_ticket s"
    by (cases e rule: is_idle.cases)
       (simp_all add: scan_qr_code_def stop_scanning_def reset_processing_def Let_def)
  obtain s1 out1 where s1: "sw_step s e = (s1, out1)" by (cases "sw_step s e")
  with st have o1: "out1 = []" and l1: "last_ticket s1 = last_ticket s" by simp_all
  have "snd (sw_run s1 es) = [] \<and> last_ticket (fst (sw_run s1 es)) = last_ticket s1"
    using Cons.IH [of s1] Cons.prems by simp
  then show ?case using s1 o1 l1 by (simp split: prod.splits)
qed

lemma sw_run_append:
  "sw_run s (xs @ ys) =
     (case sw_run s xs of (s1, out1) \<Rightarrow> (case sw_run s1 ys of (s2, out2) \<Rightarrow> (s2, out1 @ out2)))"
  by (induction xs arbitrary: s) (simp_all split: prod.splits)

lemma consecutive_same_ticket:
  assumes long: "24 \<le> length p1" "24 \<le> length p2"
    and same: "ticket_of p1 = ticket_of p2"
    and idle: "\<forall>e \<in> set mid. is_idle e"
  shows "length (emitted (snd (sw_run s (ScanQrCode (Some p1) # mid @ [ScanQrCode (Some p2)])))) \<le> 1"
proof -
  obtain s1 out1 where st1: "scan_qr_code s (Some p1) = (s1, out1)" by (cases "scan_qr_code s (Some p1)")
  obtain s2 out2 where rn: "sw_run s1 mid = (s2, out2)" by (cases "sw_run s1 mid")
  obtain s3 out3 where st3: "scan_qr_code s2 (Some p2) = (s3, out3)" by (cases "scan_qr_code s2 (Some p2)")
  from sw_run_idle [OF idle, of s1] rn have o2: "out2 = []" and l2: "last_ticket s2 = last_ticket s1"
    by simp_all
  have whole: "snd (sw_run s (ScanQrCode (Some p1) # mid @ [ScanQrCode (Some p2)])) = out1 @ out3"
    using st1 rn st3 o2 by (simp add: sw_run_append)
  have e1: "length (emitted out1) \<le> 1" and e3: "length (emitted out3) \<le> 1"
    using st1 st3 by (auto simp: scan_qr_code_def emit_detected_def Let_def split: if_splits)
  show ?thesis
  proof (cases "emitted out1 = []")
    case True
    with e3 whole show ?thesis by (simp add: emitted_append)
  next
    case False
    with st1 long(1) have "last_ticket s1 = ticket_of p1"
      by (auto simp: scan_qr_code_def emit_detected_def Let_def split: if_splits)
    with l2 same have "last_ticket s2 = ticket_of p2" by simp
    with st3 long(2) have "out3 = []"
      by (auto simp: scan_qr_code_def emit_detected_def Let_def split: if_splits)
    with e1 whole show ?thesis by (simp add: emitted_append)
  qed
qed

text \<open>
  Claim C2, as the code has it. For two consecutive decoded payloads of at least 24
  characters with the same last 24 characters, with only idle cycles and timers in
  between, at most one is emitted. More generally, in a run without a reset
  (\<open>StartScanning\<close>, \<open>ClearLastTicket\<close>) the successive emitted tickets differ
  from one another and the first differs from the ticket recorded at the start: a
  ticket equal to the last recorded one is never emitted.
\<close>

theorem dedup_against_last_ticket:
  "(24 \<le> length p1 \<and> 24 \<le> length p2 \<and> ticket_of p1 = ticket_of p2 \<and> (\<forall>e \<in> set mid. is_idle e)
      \<longrightarrow> length (emitted (snd (sw_run s (ScanQrCode (Some p1) # mid @ [ScanQrCode (Some p2)])))) \<le> 1)
   \<and> ((\<forall>e \<in> set es. \<not> is_reset e)
      \<longrightarrow> distinct_adj (last_ticket s # emitted_tickets (snd (sw_run s es))))"
  using consecutive_same_ticket [of p1 p2 mid s] sw_run_tickets [of es s]
  by blast

theorem dedup_against_last_ticket_witness:
  "24 \<le> length ''G152#KUROaaaaaaaaaaaaaaaaaaaaaaaa''
   \<and> ticket_of ''G152#KUROaaaaaaaaaaaaaaaaaaaaaaaa'' = ''aaaaaaaaaaaaaaaaaaaaaaaa''
   \<and> list_all is_idle [ResetProcessing, ScanQrCode None]
   \<and> length (emitted (snd (sw_run
        \<lparr>last_qr_code = None, processing_qr = False, last_ticket = [], scan_timer_active = True\<rparr>
        (ScanQrCode (Some ''G152#KUROaaaaaaaaaaaaaaaaaaaaaaaa'')
           # [ResetProcessing, ScanQrCode None]
           @ [ScanQrCode (Some ''G152#KUROaaaaaaaaaaaaaaaaaaaaaaaa'')])))) \<le> 1
   \<and> list_all (\<lambda>e. \<not> is_reset e)
        [ScanQrCode (Some ''G152#KUROaaaaaaaaaaaaaaaaaaaaaaaa''), ResetProcessing,
         ScanQrCode (Some ''G152#KUROaaaaaaaaaaaaaaaaaaaaaaaa'')]
   \<and> distinct_adj ([] # emitted_tickets (snd (sw_run
        \<lparr>last_qr_code = None, processing_qr = False, last_ticket = [], scan_timer_active = True\<rparr>
        [ScanQrCode (Some ''G152#KUROaaaaaaaaaaaaaaaaaaaaaaaa''), ResetProcessing,
         ScanQrCode (Some ''G152#KUROaaaaaaaaaaaaaaaaaaaaaaaa'')])))"
  using dedup_against_last_ticket
    [of "''G152#KUROaaaaaaaaaaaaaaaaaaaaaaaa''" "''G152#KUROaaaaaaaaaaaaaaaaaaaaaaaa''"
        "[ResetProcessing, ScanQrCode None]"
        "\<lparr>last_qr_code = None, processing_qr = False, last_ticket = [], scan_timer_active = True\<rparr>"
        "[ScanQrCode (Some ''G152#KUROaaaaaaaaaaaaaaaaaaaaaaaa''), ResetProcessing,
          ScanQrCode (Some ''G152#KUROaaaaaaaaaaaaaaaaaaaaaaaa'')]"]
  by (simp add: ticket_of_def)

text \<open>
  The claim as stated also promises that one session offers the same ticket at most
  once unless reset. The window remembers the last ticket only: with a second ticket
  in between, and no reset, the first ticket is emitted again.
\<close>

theorem same_ticket_emitted_twice:
  "list_all (\<lambda>e. \<not> is_reset e)
     [ScanQrCode (Some ''G152#KUROaaaaaaaaaaaaaaaaaaaaaaaa''), ResetProcessing,
      ScanQrCode (Some ''G152#KURObbbbbbbbbbbbbbbbbbbbbbbb''), ResetProcessing,
      ScanQrCode (Some ''G152#KUROaaaaaaaaaaaaaaaaaaaaaaaa'')]
   \<and> emitted_tickets (snd (sw_run
        (start_scanning \<lparr>last_qr_code = None, processing_qr = False, last_ticket = [],
                         scan_timer_active = False\<rparr>)
        [ScanQrCode (Some ''G152#KUROaaaaaaaaaaaaaaaaaaaaaaaa''), ResetProcessing,
         ScanQrCode (Some ''G152#KURObbbbbbbbbbbbbbbbbbbbbbbb''), ResetProcessing,
         ScanQrCode (Some ''G152#KUROaaaaaaaaaaaaaaaaaaaaaaaa'')]))
     = [''aaaaaaaaaaaaaaaaaaaaaaaa'', ''bbbbbbbbbbbbbbbbbbbbbbbb'', ''aaaaaaaaaaaaaaaaaaaaaaaa'']"
  by (simp add: start_scanning_def scan_qr_code_def emit_detected_def reset_processing_def
        ticket_of_def emitted_tickets_def Let_def)

text \<open>
  Claim C10. A decoded payload of fewer than 24 characters is emitted whenever the
  window is not processing: no ticket is taken, \<^verbatim>\<open>last_ticket\<close> is neither read (the
  outcome is the same for every value of it) nor written, and after
  \<^verbatim>\<open>reset_processing\<close> the same payload is emitted again with no reset in between.
\<close>

theorem short_payload_skips_dedup:
  "q \<noteq> [] \<and> length q < 24 \<and> \<not> processing_qr s \<longrightarrow>
     scan_qr_code s (Some q)
       = (s\<lparr>last_qr_code := Some q, processing_qr := True\<rparr>,
          [QrDetected q, SingleShotResetProcessing 3000])
     \<and> last_ticket (fst (scan_qr_code s (Some q))) = last_ticket s
     \<and> snd (scan_qr_code (s\<lparr>last_ticket := t\<rparr>) (Some q)) = snd (scan_qr_code s (Some q))
     \<and> emitted (snd (sw_run s [ScanQrCode (Some q), ResetProcessing, ScanQrCode (Some q)])) = [q, q]"
  by (simp add: scan_qr_code_def emit_detected_def reset_processing_def Let_def)

theorem short_payload_skips_dedup_witness:
  "''KURO'' \<noteq> [] \<and> length ''KURO'' < 24
   \<and> \<not> processing_qr \<lparr>last_qr_code = None, processing_qr = False, last_ticket = ''KURO'',
                        scan_timer_active = True\<rparr>
   \<and> snd (scan_qr_code \<lparr>last_qr_code = None, processing_qr = False, last_ticket = ''KURO'',
                          scan_timer_active = True\<rparr> (Some ''KURO''))
       = [QrDetected ''KURO'', SingleShotResetProcessing 3000]
   \<and> emitted (snd (sw_run \<lparr>last_qr_code = None, processing_qr = False, last_ticket = ''KURO'',
                            scan_timer_active = True\<rparr>
        [ScanQrCode (Some ''KURO''), ResetProcessing, ScanQrCode (Some ''KURO'')]))
       = [''KURO'', ''KURO'']"
  using short_payload_skips_dedup
    [of "''KURO''"
        "\<lparr>last_qr_code = None, processing_qr = False, last_ticket = ''KURO'', scan_timer_active = True\<rparr>"
        "''KURO''"]
  by (simp add: scan_qr_code_def emit_detected_def reset_processing_def Let_def)

section \<open>Properties of the remote auth client\<close>

lemma py_bind_Inr:
  "py_bind m f s = (Inr y, s') \<Longrightarrow> \<exists>x s1. m s = (Inr x, s1) \<and> f x s1 = (Inr y, s')"
  by (auto simp: py_bind_def split: prod.splits sum.splits)

lemma py_try_returns:
  "\<exists>x s'. py_try m (\<lambda>e. py_return (h e)) s = (Inr x, s')
      \<and> ((\<exists>e. x = h e) \<or> m s = (Inr x, s'))"
  by (cases "m s"; cases "fst (m s)") (auto simp: py_try_def py_return_def)

lemma post_json_Inr:
  "py_bind (session_post net url data t) response_json api = (Inr r, api1)
     \<Longrightarrow> \<exists>h q. http_post net h q = Inr (Inr r)"
  by (auto simp: py_bind_def session_post_def response_json_def py_lift_def Let_def
           split: sum.splits)

lemma retry_loop_returns:
  "\<exists>r api1. retry_loop net url data le ts api = (Inr r, api1)
      \<and> ((\<exists>m. r = failure_result m) \<or> (\<exists>h q. http_post net h q = Inr (Inr r)))"
proof (induction ts arbitrary: le api)
  case Nil
  then show ?case by (auto simp: after_loop_def)
next
  case (Cons t ts)
  obtain x api1 where st: "py_bind (session_post net url data t) response_json api = (x, api1)"
    by (cases "py_bind (session_post net url data t) response_json api")
  show ?case
  proof (cases x)
    case (Inr r)
    with st post_json_Inr [of net url data t api r api1] show ?thesis by auto
  next
    case (Inl e)
    show ?thesis
    proof (cases e)
      case (Timeout m)
      with Inl st Cons.IH [of "Some (timeout_text net t)" api1] show ?thesis by simp
    next
      case (OtherException m)
      with Inl st show ?thesis by (auto simp: after_loop_def)
    qed
  qed
qed

lemma login_returns:
  "\<exists>r api1. login net mobile code api = (Inr r, api1)
      \<and> ((\<exists>m. r = failure_result m) \<or> (\<exists>h q. http_post net h q = Inr (Inr r)))"
proof -
  let ?body = "py_bind (session_post net (BASE_URL @ ''/user/sdkLogin'')
                   (Form [(''mobile'', mobile), (''code'', code)]) 5) (\<lambda>response.
        py_bind (response_json response) (\<lambda>result.
        py_bind (py_lift (dict_get result ''code'' JNull)) (\<lambda>c.
          if py_eq_int c 200
          then py_bind (py_lift (dict_get result ''data'' (JDict []))) (\<lambda>data.
               py_bind (py_lift (dict_get data ''token'' (JStr []))) (\<lambda>tok.
               py_bind (set_token net tok) (\<lambda>_. py_return result)))
          else py_return result)))"
  from py_try_returns [of ?body "\<lambda>e. failure_result (failed_text e)" api]
  obtain x s' where eq: "login net mobile code api = (Inr x, s')"
    and alt: "(\<exists>e. x = failure_result (failed_text e)) \<or> ?body api = (Inr x, s')"
    unfolding login_def by blast
  from alt show ?thesis
  proof
    assume "\<exists>e. x = failure_result (failed_text e)"
    with eq show ?thesis by blast
  next
    assume b: "?body api = (Inr x, s')"
    from py_bind_Inr [OF b] obtain resp s1 where
      p: "session_post net (BASE_URL @ ''/user/sdkLogin'') (Form [(''mobile'', mobile), (''code'', code)]) 5 api
            = (Inr resp, s1)"
      and r1: "py_bind (response_json resp) (\<lambda>result.
        py_bind (py_lift (dict_get result ''code'' JNull)) (\<lambda>c.
          if py_eq_int c 200
          then py_bind (py_lift (dict_get result ''data'' (JDict []))) (\<lambda>data.
               py_bind (py_lift (dict_get data ''token'' (JStr []))) (\<lambda>tok.
               py_bind (set_token net tok) (\<lambda>_. py_return result)))
          else py_return result)) s1 = (Inr x, s')" by blast
    from py_bind_Inr [OF r1] obtain result s2 where
      j: "response_json resp s1 = (Inr result, s2)"
      and r2: "py_bind (py_lift (dict_get result ''code'' JNull)) (\<lambda>c.
          if py_eq_int c 200
          then py_bind (py_lift (dict_get result ''data'' (JDict []))) (\<lambda>data.
               py_bind (py_lift (dict_get data ''token'' (JStr []))) (\<lambda>tok.
               py_bind (set_token net tok) (\<lambda>_. py_return result)))
          else py_return result) s2 = (Inr x, s')" by blast
    have xr: "x = result"
      using r2
      by (auto simp: py_bind_def py_lift_def py_return_def split: sum.splits prod.splits if_splits)
    from p j have "\<exists>h q. http_post net h q = Inr (Inr result)"
      by (auto simp: session_post_def response_json_def py_lift_def Let_def)
    with eq xr show ?thesis by blast
  qed
qed

lemma send_sms_returns:
  "\<exists>r api1. send_sms net api = (Inr r, api1)
      \<and> ((\<exists>m. r = failure_result m) \<or> (\<exists>h q. http_post net h q = Inr (Inr r)))"
proof -
  let ?body = "py_bind (session_post net (BASE_URL @ ''/user/sms/scanSms'') (Raw ''geeTestData='') 5)
          response_json"
  from py_try_returns [of ?body "\<lambda>e. failure_result (failed_text e)" api]
  obtain x s' where eq: "send_sms net api = (Inr x, s')"
    and alt: "(\<exists>e. x = failure_result (failed_text e)) \<or> ?body api = (Inr x, s')"
    unfolding send_sms_def by blast
  from alt show ?thesis
  proof
    assume "\<exists>e. x = failure_result (failed_text e)"
    with eq show ?thesis by blast
  next
    assume "?body api = (Inr x, s')"
    from post_json_Inr [OF this] eq show ?thesis by blast
  qed
qed

lemma posted_sent [simp]: "posted (api\<lparr>sent := xs\<rparr>) url data t = posted api url data t"
  by (simp add: posted_def)

lemma post_json_attempt:
  "py_bind (session_post net url data t) response_json api
     = (attempt net api url data t, api\<lparr>sent := sent api @ [posted api url data t]\<rparr>)"
  by (simp add: py_bind_def session_post_def response_json_def py_lift_def attempt_def Let_def
           split: sum.splits)

lemma retry_loop_timeout:
  "attempt net api url data t = Inl (Timeout m) \<Longrightarrow>
     retry_loop net url data le (t # ts) api
       = retry_loop net url data (Some (timeout_text net t)) ts
           (api\<lparr>sent := sent api @ [posted api url data t]\<rparr>)"
  by (simp add: post_json_attempt)

lemma failed_text_nonempty: "failed_text e \<noteq> []"
  by (simp add: failed_text_def TXT_REQUEST_FAILED_def)

lemma timeout_text_nonempty: "timeout_text net t \<noteq> []"
  by (simp add: timeout_text_def TXT_REQUEST_TIMEOUT_def)

lemma retry_loop_other:
  "attempt net api url data t = Inl (OtherException m) \<Longrightarrow>
     retry_loop net url data le (t # ts) api
       = (Inr (failure_result (failed_text (OtherException m))),
          api\<lparr>sent := sent api @ [posted api url data t]\<rparr>)"
  by (simp add: post_json_attempt after_loop_def failed_text_nonempty)

lemma retry_loop_success:
  "attempt net api url data t = Inr r \<Longrightarrow>
     retry_loop net url data le (t # ts) api
       = (Inr r, api\<lparr>sent := sent api @ [posted api url data t]\<rparr>)"
  by (simp add: post_json_attempt)

lemma attempt_all_timeout:
  "\<forall>h q. \<exists>m. http_post net h q = Inl (Timeout m) \<Longrightarrow> \<exists>m. attempt net api url data t = Inl (Timeout m)"
proof -
  assume a: "\<forall>h q. \<exists>m. http_post net h q = Inl (Timeout m)"
  then obtain m where "http_post net (sent api) (posted api url data t) = Inl (Timeout m)" by blast
  then show ?thesis by (simp add: attempt_def)
qed

lemma retry_loop_all_timeout:
  assumes "\<forall>h q. \<exists>m. http_post net h q = Inl (Timeout m)"
  shows "retry_loop net url data le ts api
       = (Inr (after_loop (if ts = [] then le else Some (timeout_text net (last ts)))),
          api\<lparr>sent := sent api @ map (posted api url data) ts\<rparr>)"
proof (induction ts arbitrary: le api)
  case Nil
  then show ?case by simp
next
  case (Cons t ts)
  from attempt_all_timeout [OF assms, of api url data t]
  obtain m where "attempt net api url data t = Inl (Timeout m)" by blast
  from retry_loop_timeout [OF this] Cons.IH show ?case by simp
qed


lemma login_transport_failure:
  "attempt net api (BASE_URL @ ''/user/sdkLogin'') (Form [(''mobile'', mobile), (''code'', code)]) 5 = Inl e
   \<Longrightarrow> login net mobile code api
       = (Inr (failure_result (failed_text e)),
          api\<lparr>sent := sent api @ [posted api (BASE_URL @ ''/user/sdkLogin'')
                                      (Form [(''mobile'', mobile), (''code'', code)]) 5]\<rparr>)"
  by (auto simp: login_def attempt_def py_try_def py_bind_def session_post_def response_json_def
        py_lift_def py_return_def Let_def split: sum.splits)

lemma send_sms_transport_failure:
  "attempt net api (BASE_URL @ ''/user/sms/scanSms'') (Raw ''geeTestData='') 5 = Inl e
   \<Longrightarrow> send_sms net api
       = (Inr (failure_result (failed_text e)),
          api\<lparr>sent := sent api @ [posted api (BASE_URL @ ''/user/sms/scanSms'') (Raw ''geeTestData='') 5]\<rparr>)"
  by (simp add: send_sms_def py_try_def post_json_attempt py_return_def)

text \<open>
  Claim C4. With smart retry, when every POST times out \<^verbatim>\<open>get_role_infos\<close> sends
  exactly three requests, with timeouts 0.6, 1.2 and 2.0, and returns the failure
  outcome: the dict whose \<^verbatim>\<open>code\<close> is -1 and whose \<^verbatim>\<open>msg\<close> is the timeout text of
  the last attempt; \<^verbatim>\<open>scan_login\<close> does the same with 0.8, 1.5 and 2.5. When an
  attempt ends in an exception that is not a timeout, at whatever point of the
  ladder (the loop on the timeouts that remain), that attempt is the last request
  sent and the dict with \<^verbatim>\<open>code\<close> -1 and the text of the exception is returned;
  when it is the first attempt, one request is sent in all.
\<close>

theorem timeout_ladder_attempts:
  "((\<forall>h q. \<exists>m. http_post net h q = Inl (Timeout m)) \<longrightarrow>
      get_role_infos net qr_code True api
        = (Inr (JDict [(''code'', JInt (- 1)),
                       (''msg'', JStr (TXT_REQUEST_TIMEOUT @ ''(>'' @ str_float net 2.0 @ ''s)''))]),
           api\<lparr>sent := sent api @ map (posted api role_infos_url (role_infos_data qr_code)) [0.6, 1.2, 2.0]\<rparr>)
      \<and> scan_login net qr_code verify_code auto_login True api
        = (Inr (JDict [(''code'', JInt (- 1)),
                       (''msg'', JStr (TXT_REQUEST_TIMEOUT @ ''(>'' @ str_float net 2.5 @ ''s)''))]),
           api\<lparr>sent := sent api
              @ map (posted api scan_login_url (scan_login_data qr_code verify_code auto_login)) [0.8, 1.5, 2.5]\<rparr>))
   \<and> (attempt net2 api2 url data t = Inl (OtherException m) \<longrightarrow>
        retry_loop net2 url data last_error (t # ts) api2
          = (Inr (JDict [(''code'', JInt (- 1)), (''msg'', JStr (TXT_REQUEST_FAILED @ '': '' @ m))]),
             api2\<lparr>sent := sent api2 @ [posted api2 url data t]\<rparr>))
   \<and> (attempt net2 api2 role_infos_url (role_infos_data qr_code) 0.6 = Inl (OtherException m) \<longrightarrow>
        get_role_infos net2 qr_code True api2
          = (Inr (JDict [(''code'', JInt (- 1)), (''msg'', JStr (TXT_REQUEST_FAILED @ '': '' @ m))]),
             api2\<lparr>sent := sent api2 @ [posted api2 role_infos_url (role_infos_data qr_code) 0.6]\<rparr>))
   \<and> (attempt net2 api2 scan_login_url (scan_login_data qr_code verify_code auto_login) 0.8
          = Inl (OtherException m) \<longrightarrow>
        scan_login net2 qr_code verify_code auto_login True api2
          = (Inr (JDict [(''code'', JInt (- 1)), (''msg'', JStr (TXT_REQUEST_FAILED @ '': '' @ m))]),
             api2\<lparr>sent := sent api2
                @ [posted api2 scan_login_url (scan_login_data qr_code verify_code auto_login) 0.8]\<rparr>))"
proof (intro conjI impI)
  assume a: "\<forall>h q. \<exists>m. http_post net h q = Inl (Timeout m)"
  show "get_role_infos net qr_code True api
        = (Inr (JDict [(''code'', JInt (- 1)),
                       (''msg'', JStr (TXT_REQUEST_TIMEOUT @ ''(>'' @ str_float net 2.0 @ ''s)''))]),
           api\<lparr>sent := sent api @ map (posted api role_infos_url (role_infos_data qr_code)) [0.6, 1.2, 2.0]\<rparr>)"
    unfolding get_role_infos_def
    by (simp del: retry_loop.simps
          add: retry_loop_all_timeout [OF a] after_loop_def timeout_text_nonempty failure_result_def)
       (simp add: timeout_text_def)
  show "scan_login net qr_code verify_code auto_login True api
        = (Inr (JDict [(''code'', JInt (- 1)),
                       (''msg'', JStr (TXT_REQUEST_TIMEOUT @ ''(>'' @ str_float net 2.5 @ ''s)''))]),
           api\<lparr>sent := sent api
              @ map (posted api scan_login_url (scan_login_data qr_code verify_code auto_login)) [0.8, 1.5, 2.5]\<rparr>)"
    unfolding scan_login_def
    by (simp del: retry_loop.simps
          add: retry_loop_all_timeout [OF a] after_loop_def timeout_text_nonempty failure_result_def)
       (simp add: timeout_text_def)
next
  assume "attempt net2 api2 url data t = Inl (OtherException m)"
  from retry_loop_other [OF this]
  show "retry_loop net2 url data last_error (t # ts) api2
          = (Inr (JDict [(''code'', JInt (- 1)), (''msg'', JStr (TXT_REQUEST_FAILED @ '': '' @ m))]),
             api2\<lparr>sent := sent api2 @ [posted api2 url data t]\<rparr>)"
    by (simp del: retry_loop.simps add: failure_result_def failed_text_def)
next
  assume "attempt net2 api2 role_infos_url (role_infos_data qr_code) 0.6 = Inl (OtherException m)"
  from retry_loop_other [OF this]
  show "get_role_infos net2 qr_code True api2
          = (Inr (JDict [(''code'', JInt (- 1)), (''msg'', JStr (TXT_REQUEST_FAILED @ '': '' @ m))]),
             api2\<lparr>sent := sent api2 @ [posted api2 role_infos_url (role_infos_data qr_code) 0.6]\<rparr>)"
    unfolding get_role_infos_def
    by (simp del: retry_loop.simps add: failure_result_def failed_text_def)
next
  assume "attempt net2 api2 scan_login_url (scan_login_data qr_code verify_code auto_login) 0.8
          = Inl (OtherException m)"
  from retry_loop_other [OF this]
  show "scan_login net2 qr_code verify_code auto_login True api2
          = (Inr (JDict [(''code'', JInt (- 1)), (''msg'', JStr (TXT_REQUEST_FAILED @ '': '' @ m))]),
             api2\<lparr>sent := sent api2
                @ [posted api2 scan_login_url (scan_login_data qr_code verify_code auto_login) 0.8]\<rparr>)"
    unfolding scan_login_def
    by (simp del: retry_loop.simps add: failure_result_def failed_text_def)
qed

theorem timeout_ladder_attempts_witness:
  "(\<forall>h q. \<exists>m. http_post dead_network h q = Inl (Timeout m))
   \<and> map req_timeout (sent (snd (get_role_infos dead_network ''G152#KURO'' True fresh_api)))
       = [0.6, 1.2, 2.0]
   \<and> map req_timeout (sent (snd (scan_login dead_network ''G152#KURO'' [] False True fresh_api)))
       = [0.8, 1.5, 2.5]
   \<and> fst (get_role_infos dead_network ''G152#KURO'' True fresh_api)
       = Inr (JDict [(''code'', JInt (- 1)), (''msg'', JStr ''request timed out(>2.0s)'')])
   \<and> fst (scan_login dead_network ''G152#KURO'' [] False True fresh_api)
       = Inr (JDict [(''code'', JInt (- 1)), (''msg'', JStr ''request timed out(>2.5s)'')])
   \<and> attempt refusing_network fresh_api role_infos_url (role_infos_data ''G152#KURO'') 0.6
       = Inl (OtherException ''connection refused'')
   \<and> attempt refusing_network fresh_api scan_login_url (scan_login_data ''G152#KURO'' [] False) 0.8
       = Inl (OtherException ''connection refused'')
   \<and> get_role_infos refusing_network ''G152#KURO'' True fresh_api
       = (Inr (JDict [(''code'', JInt (- 1)), (''msg'', JStr ''request failed: connection refused'')]),
          fresh_api\<lparr>sent := [posted fresh_api role_infos_url (role_infos_data ''G152#KURO'') 0.6]\<rparr>)
   \<and> map req_timeout (sent (snd (scan_login refusing_network ''G152#KURO'' [] False True fresh_api)))
       = [0.8]
   \<and> fst (scan_login refusing_network ''G152#KURO'' [] False True fresh_api)
       = Inr (JDict [(''code'', JInt (- 1)), (''msg'', JStr ''request failed: connection refused'')])
   \<and> map req_timeout (sent (snd (retry_loop refusing_network role_infos_url
         (role_infos_data ''G152#KURO'') None [0.6, 1.2, 2.0] fresh_api))) = [0.6]"
  using timeout_ladder_attempts
    [where net = dead_network and api = fresh_api and qr_code = "''G152#KURO''"
       and verify_code = "[]" and auto_login = False
       and ?net2.0 = refusing_network and ?api2.0 = fresh_api
       and url = role_infos_url and data = "role_infos_data ''G152#KURO''"
       and t = "0.6" and ts = "[1.2, 2.0]" and last_error = None and m = "''connection refused''"]
  by (simp add: dead_network_def refusing_network_def fresh_api_def attempt_def posted_def
        TXT_REQUEST_TIMEOUT_def TXT_REQUEST_FAILED_def shown_timeout_def)

text \<open>
  Claim C5. Whatever the HTTP layer does, \<^verbatim>\<open>get_role_infos\<close>, \<^verbatim>\<open>scan_login\<close>,
  \<^verbatim>\<open>login\<close> and \<^verbatim>\<open>send_sms\<close> return and never raise; what they return is either a
  value that some response parsed to, or the failure dict, whose \<^verbatim>\<open>code\<close> is the
  integer -1 and whose \<^verbatim>\<open>msg\<close> is a string. When the POST of \<^verbatim>\<open>login\<close> or of
  \<^verbatim>\<open>send_sms\<close> (or the parsing of its response) raises, the failure dict with the
  text of that exception is what is returned.
\<close>

theorem auth_client_never_raises:
  "(\<exists>r api1. get_role_infos net qr_code smart_retry api = (Inr r, api1)
      \<and> ((\<exists>m. r = failure_result m) \<or> (\<exists>h q. http_post net h q = Inr (Inr r))))
   \<and> (\<exists>r api1. scan_login net qr_code verify_code auto_login smart_retry api = (Inr r, api1)
      \<and> ((\<exists>m. r = failure_result m) \<or> (\<exists>h q. http_post net h q = Inr (Inr r))))
   \<and> (\<exists>r api1. login net mobile code api = (Inr r, api1)
      \<and> ((\<exists>m. r = failure_result m) \<or> (\<exists>h q. http_post net h q = Inr (Inr r))))
   \<and> (\<exists>r api1. send_sms net api = (Inr r, api1)
      \<and> ((\<exists>m. r = failure_result m) \<or> (\<exists>h q. http_post net h q = Inr (Inr r))))
   \<and> dict_get (failure_result msg) ''code'' JNull = Inr (JInt (- 1))
   \<and> dict_get (failure_result msg) ''msg'' JNull = Inr (JStr msg)
   \<and> (attempt net api (BASE_URL @ ''/user/sdkLogin'') (Form [(''mobile'', mobile), (''code'', code)]) 5
          = Inl e
        \<longrightarrow> fst (login net mobile code api) = Inr (failure_result (failed_text e)))
   \<and> (attempt net api (BASE_URL @ ''/user/sms/scanSms'') (Raw ''geeTestData='') 5 = Inl e
        \<longrightarrow> fst (send_sms net api) = Inr (failure_result (failed_text e)))"
  using retry_loop_returns [of net role_infos_url "role_infos_data qr_code" None
          "if smart_retry then [0.6, 1.2, 2.0] else [1.0]" api]
    retry_loop_returns [of net scan_login_url "scan_login_data qr_code verify_code auto_login" None
          "if smart_retry then [0.8, 1.5, 2.5] else [1.5]" api]
    login_returns [of net mobile code api] send_sms_returns [of net api]
    login_transport_failure [of net api mobile code e]
    send_sms_transport_failure [of net api e]
  unfolding get_role_infos_def scan_login_def
  by (simp add: failure_result_def)

theorem auth_client_never_raises_witness:
  "attempt refusing_network fresh_api (BASE_URL @ ''/user/sdkLogin'')
       (Form [(''mobile'', ''13800000000''), (''code'', ''123456'')]) 5
     = Inl (OtherException ''connection refused'')
   \<and> attempt refusing_network fresh_api (BASE_URL @ ''/user/sms/scanSms'') (Raw ''geeTestData='') 5
     = Inl (OtherException ''connection refused'')
   \<and> fst (login refusing_network ''13800000000'' ''123456'' fresh_api)
     = Inr (failure_result (failed_text (OtherException ''connection refused'')))
   \<and> fst (send_sms refusing_network fresh_api)
     = Inr (failure_result (failed_text (OtherException ''connection refused'')))"
  using auth_client_never_raises
    [where net = refusing_network and api = fresh_api and mobile = "''13800000000''"
       and code = "''123456''" and e = "OtherException ''connection refused''"]
  by (simp add: refusing_network_def fresh_api_def attempt_def posted_def)

section \<open>Properties of the login thread and its caller\<close>



lemma kuro_api_eq:
  "kuro_api call m w
     = (fst (m (w_api w)), w\<lparr>w_api := snd (m (w_api w)), w_calls := w_calls w @ [call]\<rparr>)"
  by (simp add: kuro_api_def split: prod.splits)

lemma report_eq:
  "report mark text res w
     = (Inr (), w\<lparr>w_signals := w_signals w @ [LogMessage mark text, ScanResult res]\<rparr>)"
  by (simp add: report_def py_bind_def emit_def)

lemma py_try_bind:
  "py_try (py_bind m f) h s
     = (case m s of (Inl e, s1) \<Rightarrow> h e s1 | (Inr x, s1) \<Rightarrow> py_try (f x) h s1)"
  by (simp add: py_try_def py_bind_def split: prod.splits sum.splits)

subsection \<open>Relations kept by a computation\<close>

















lemma is_dict_get: "is_dict j \<Longrightarrow> \<exists>v. dict_get j key dflt = Inr v"
  by (cases j) simp_all


lemma py_try_report: "py_try (report mark text res) h w = report mark text res w"
  by (simp add: py_try_def report_eq)

lemma run_reaches:
  "reaches_confirm net self w0 = (Inr True, w) \<Longrightarrow>
     run net pm self w0
       = py_try (confirm net pm self)
           (\<lambda>e. report Cross (JStr (str_exn e))
                   \<lparr>success = False, message = JStr (str_exn e), need_sms = False\<rparr>) w"
  by (simp add: run_def py_try_def py_bind_def)

lemma soft_retry:
  assumes vc: "st_verify_code self \<noteq> []"
    and reach: "reaches_confirm net self w0 = (Inr True, w)"
    and first: "scan_login net (st_qr_code self) (st_verify_code self) False True (w_api w) = (Inr r1, a1)"
    and d: "is_dict r1" "\<not> has_code r1 200" "\<not> has_code r1 2240"
    and second: "scan_login net (st_qr_code self) [] False True a1 = (r2, a2)"
  shows "\<exists>mark text res.
       run net pm self w0
         = (Inr (), w\<lparr>w_api := a2,
                      w_calls := w_calls w @ [CallScanLogin (st_qr_code self) (st_verify_code self),
                                            CallScanLogin (st_qr_code self) []],
                      w_signals := w_signals w @ [LogMessage mark text, ScanResult res]\<rparr>)
     \<and> \<not> need_sms res
     \<and> (success res \<longleftrightarrow> (\<exists>j. r2 = Inr j \<and> has_code j 200))
     \<and> (success res \<longrightarrow> message res = JStr TXT_LOGIN_OK)"
proof -
  from d(1) obtain kvs where r1: "r1 = JDict kvs" by (cases r1) simp_all
  obtain c where c: "dict_get r1 ''code'' JNull = Inr c" using is_dict_get [OF d(1)] by blast
  from d(2,3) c have nc: "\<not> py_eq_int c 200" "\<not> py_eq_int c 2240" by (simp_all add: has_code_def)
  have step1: "run net pm self w0
      = py_try (retry_without_code net self)
          (\<lambda>e. report Cross (JStr (str_exn e))
                   \<lparr>success = False, message = JStr (str_exn e), need_sms = False\<rparr>)
          (w\<lparr>w_api := a1, w_calls := w_calls w @ [CallScanLogin (st_qr_code self) (st_verify_code self)]\<rparr>)"
    using vc first c nc
    by (simp add: run_reaches [OF reach] confirm_def py_try_bind kuro_api_eq confirm_outcome_def
          py_lift_def)
  show ?thesis
  proof (cases r2)
    case (Inl e)
    with second show ?thesis
      by (intro exI [of _ Cross] exI [of _ "JStr (str_exn e)"]
            exI [of _ "\<lparr>success = False, message = JStr (str_exn e), need_sms = False\<rparr>"])
         (simp add: step1 retry_without_code_def py_try_bind kuro_api_eq report_eq)
  next
    case (Inr j)
    show ?thesis
    proof (cases "dict_get j ''code'' JNull")
      case (Inl e)
      with Inr second show ?thesis
        by (intro exI [of _ Cross] exI [of _ "JStr (str_exn e)"]
              exI [of _ "\<lparr>success = False, message = JStr (str_exn e), need_sms = False\<rparr>"])
           (simp add: step1 retry_without_code_def py_try_bind kuro_api_eq report_eq py_lift_def
              has_code_def)
    next
      case c2: (Inr c2)
      show ?thesis
      proof (cases "py_eq_int c2 200")
        case True
        with Inr c2 second show ?thesis
          by (intro exI [of _ Check] exI [of _ "JStr TXT_LOGIN_OK"]
                exI [of _ "\<lparr>success = True, message = JStr TXT_LOGIN_OK, need_sms = False\<rparr>"])
             (simp add: step1 retry_without_code_def py_try_bind kuro_api_eq report_eq py_lift_def
                has_code_def py_try_report)
      next
        case False
        from c2 have "is_dict j" by (cases j) simp_all
        then obtain msg where m: "dict_get j ''msg'' (JStr TXT_LOGIN_FAILED) = Inr msg"
          using is_dict_get by blast
        with False Inr c2 second show ?thesis
          by (intro exI [of _ Cross] exI [of _ msg]
                exI [of _ "\<lparr>success = False, message = msg, need_sms = False\<rparr>"])
             (simp add: step1 retry_without_code_def py_try_bind kuro_api_eq report_eq py_lift_def
                has_code_def py_try_report)
      qed
    qed
  qed
qed














text \<open>
  Claim C7. Let a thread reach its confirmation with a non-empty verification code,
  and let the call return a JSON object whose status is neither 200 nor 2240. Then
  the thread calls \<^verbatim>\<open>scan_login\<close> exactly once more, with the empty code, and
  emits exactly one result after it: success, with the text of a successful login,
  if and only if the retry returned status 200, and a failure otherwise.
\<close>

theorem soft_retry_without_code:
  "st_verify_code self \<noteq> []
     \<and> reaches_confirm net self w0 = (Inr True, w)
     \<and> scan_login net (st_qr_code self) (st_verify_code self) False True (w_api w) = (Inr r1, a1)
     \<and> is_dict r1 \<and> \<not> has_code r1 200 \<and> \<not> has_code r1 2240
     \<and> scan_login net (st_qr_code self) [] False True a1 = (r2, a2)
   \<longrightarrow> (\<exists>mark text res.
         run net pm self w0
           = (Inr (), w\<lparr>w_api := a2,
                        w_calls := w_calls w @ [CallScanLogin (st_qr_code self) (st_verify_code self),
                                              CallScanLogin (st_qr_code self) []],
                        w_signals := w_signals w @ [LogMessage mark text, ScanResult res]\<rparr>)
       \<and> \<not> need_sms res
       \<and> (success res \<longleftrightarrow> (\<exists>j. r2 = Inr j \<and> has_code j 200))
       \<and> (success res \<longrightarrow> message res = JStr TXT_LOGIN_OK))"
  using soft_retry [of self net w0 w r1 a1 r2 a2]
  by blast

theorem soft_retry_without_code_witness:
  "st_verify_code \<lparr>st_qr_code = example_qr, st_verify_code = ''123456'', st_skip_role_check = True\<rparr> \<noteq> []
   \<and> reaches_confirm code_rejecting_network
        \<lparr>st_qr_code = example_qr, st_verify_code = ''123456'', st_skip_role_check = True\<rparr> fresh_world
      = (Inr True, fresh_world)
   \<and> scan_login code_rejecting_network example_qr ''123456'' False True (w_api fresh_world)
      = (Inr (JDict [(''code'', JInt 500), (''msg'', JStr ''wrong code'')]),
         fresh_api\<lparr>sent := [posted fresh_api scan_login_url (scan_login_data example_qr ''123456'' False) 0.8]\<rparr>)
   \<and> is_dict (JDict [(''code'', JInt 500), (''msg'', JStr ''wrong code'')])
   \<and> \<not> has_code (JDict [(''code'', JInt 500), (''msg'', JStr ''wrong code'')]) 200
   \<and> \<not> has_code (JDict [(''code'', JInt 500), (''msg'', JStr ''wrong code'')]) 2240
   \<and> run code_rejecting_network idle_monitor
        \<lparr>st_qr_code = example_qr, st_verify_code = ''123456'', st_skip_role_check = True\<rparr> fresh_world
      = (Inr (),
         fresh_world
           \<lparr>w_api := fresh_api\<lparr>sent :=
                [posted fresh_api scan_login_url (scan_login_data example_qr ''123456'' False) 0.8,
                 posted fresh_api scan_login_url (scan_login_data example_qr [] False) 0.8]\<rparr>,
            w_calls := [CallScanLogin example_qr ''123456'', CallScanLogin example_qr []],
            w_signals := [LogMessage Check (JStr TXT_LOGIN_OK),
                          ScanResult \<lparr>success = True, message = JStr TXT_LOGIN_OK, need_sms = False\<rparr>]\<rparr>)"
  using soft_retry_without_code
    [where self = "\<lparr>st_qr_code = example_qr, st_verify_code = ''123456'', st_skip_role_check = True\<rparr>"
       and net = code_rejecting_network and ?w0.0 = fresh_world and w = fresh_world
       and ?r1.0 = "JDict [(''code'', JInt 500), (''msg'', JStr ''wrong code'')]"
       and ?a1.0 = "fresh_api\<lparr>sent := [posted fresh_api scan_login_url (scan_login_data example_qr ''123456'' False) 0.8]\<rparr>"
       and ?r2.0 = "Inr (JDict [(''code'', JInt 200)])"
       and ?a2.0 = "fresh_api\<lparr>sent :=
                [posted fresh_api scan_login_url (scan_login_data example_qr ''123456'' False) 0.8,
                 posted fresh_api scan_login_url (scan_login_data example_qr [] False) 0.8]\<rparr>"]
  by (simp add: reaches_confirm_def run_def confirm_def confirm_outcome_def
        retry_without_code_def scan_login_def
        py_bind_def py_try_def py_lift_def py_return_def kuro_api_def report_def emit_def
        session_post_def response_json_def posted_def
        code_rejecting_network_def fresh_world_def fresh_api_def verify_code_of_def
        scan_login_data_def has_code_def Let_def)

section \<open>Properties of the decode engine\<close>

lemma starts_with_iff: "starts_with needle s \<longleftrightarrow> (\<exists>b. s = needle @ b)"
  by (induction needle s rule: starts_with.induct) auto

lemma contains_iff: "contains needle s \<longleftrightarrow> (\<exists>a b. s = a @ needle @ b)"
proof (induction s)
  case Nil
  then show ?case by auto
next
  case (Cons c cs)
  show ?case
  proof
    assume "contains needle (c # cs)"
    then consider "starts_with needle (c # cs)" | "contains needle cs" by auto
    then show "\<exists>a b. c # cs = a @ needle @ b"
    proof cases
      case 1
      then obtain b where "c # cs = needle @ b" using starts_with_iff by blast
      then have "c # cs = [] @ needle @ b" by simp
      then show ?thesis by blast
    next
      case 2
      with Cons.IH obtain a b where "cs = a @ needle @ b" by blast
      then have "c # cs = (c # a) @ needle @ b" by simp
      then show ?thesis by blast
    qed
  next
    assume "\<exists>a b. c # cs = a @ needle @ b"
    then obtain a b where ab: "c # cs = a @ needle @ b" by blast
    show "contains needle (c # cs)"
    proof (cases a)
      case Nil
      with ab have "starts_with needle (c # cs)" using starts_with_iff by auto
      then show ?thesis by simp
    next
      case (Cons x xs)
      with ab have "cs = xs @ needle @ b" by simp
      with Cons.IH have "contains needle cs" by blast
      then show ?thesis by simp
    qed
  qed
qed

lemma is_game_qr_iff: "is_game_qr q \<longleftrightarrow> (\<exists>a b. q = a @ ''KURO'' @ b)"
proof -
  have "contains ''G152#KURO'' q \<Longrightarrow> contains ''KURO'' q"
  proof -
    assume "contains ''G152#KURO'' q"
    then obtain a b where "q = a @ ''G152#KURO'' @ b" using contains_iff by blast
    then have "q = (a @ ''G152#'') @ ''KURO'' @ b" by simp
    then show "contains ''KURO'' q" using contains_iff by blast
  qed
  then show ?thesis unfolding is_game_qr_def using contains_iff [of "''KURO''" q] by blast
qed

lemma wechat_decode_marked: "wechat_decode sc img = Some q \<Longrightarrow> is_game_qr q"
  by (auto simp: wechat_decode_def split: option.splits sum.splits list.splits if_splits)

lemma pyzbar_decode_marked: "pyzbar_decode sc img = Some q \<Longrightarrow> is_game_qr q"
  by (auto simp: pyzbar_decode_def split: sum.splits list.splits if_splits)

lemma try_decode_qr_marked: "try_decode_qr sc img = Some q \<Longrightarrow> is_game_qr q"
  by (auto simp: try_decode_qr_def split: option.splits
           dest: wechat_decode_marked pyzbar_decode_marked)

lemma first_decoded_marked: "first_decoded sc xs = Some (q, m) \<Longrightarrow> is_game_qr q"
  by (induction sc xs rule: first_decoded.induct)
     (auto split: option.splits if_splits dest: try_decode_qr_marked)

lemma try_decode_parallel_marked: "try_decode_parallel sc images = Some (q, m) \<Longrightarrow> is_game_qr q"
  unfolding try_decode_parallel_def by (rule first_decoded_marked)

lemma detected_returns: "\<exists>evs1. detected sc r q evs = (Inr (Some q), evs1)"
  by (cases r) (simp add: detected_def py_bind_def py_return_def trace_def)

lemma decode_enhanced_returns:
  "\<exists>res evs1. decode_enhanced sc r idx xs evs = (Inr res, evs1) \<and> (\<forall>q. res = Some q \<longrightarrow> is_game_qr q)"
proof (induction xs arbitrary: idx evs)
  case Nil
  then show ?case by (simp add: py_return_def)
next
  case (Cons x xs)
  show ?case
  proof (cases "try_decode_qr sc x")
    case None
    with Cons.IH [of "Suc idx" "evs @ [DecodeOne idx]"] show ?thesis
      by (simp add: py_bind_def trace_def)
  next
    case (Some q)
    show ?thesis
    proof (cases "q = []")
      case True
      with Some Cons.IH [of "Suc idx" "evs @ [DecodeOne idx]"] show ?thesis
        by (simp add: py_bind_def trace_def)
    next
      case False
      from detected_returns [of sc r q "evs @ [DecodeOne idx]"]
      obtain evs1 where "detected sc r q (evs @ [DecodeOne idx]) = (Inr (Some q), evs1)" by blast
      with False Some try_decode_qr_marked [OF Some] show ?thesis
        by (simp add: py_bind_def trace_def)
    qed
  qed
qed

lemma scan_region_returns:
  "\<exists>res evs1. scan_region sc r evs = (Inr res, evs1) \<and> (\<forall>q. res = Some q \<longrightarrow> is_game_qr q)"
proof -
  let ?body = "py_bind (grab sc r) (\<lambda>img.
        py_bind (py_lift (lib_resize_fit sc img)) (\<lambda>img_1280.
        py_bind (py_lift (lib_resize_40 sc img)) (\<lambda>img_40.
        py_bind (trace (Race (map fst (candidates_of img img_1280 img_40)))) (\<lambda>_.
          case try_decode_parallel sc (candidates_of img img_1280 img_40) of
            Some (qr_code, method) \<Rightarrow> detected sc r qr_code
          | None \<Rightarrow>
              py_bind (enhance_image_ai sc img_1280) (\<lambda>enhanced_images.
              decode_enhanced sc r 1 (tl enhanced_images))))))"
  from py_try_returns [of ?body "\<lambda>e. None" evs]
  obtain res evs1 where eq: "scan_region sc r evs = (Inr res, evs1)"
    and alt: "res = None \<or> ?body evs = (Inr res, evs1)"
    unfolding scan_region_def by blast
  from alt have "\<forall>q. res = Some q \<longrightarrow> is_game_qr q"
  proof
    assume "res = None"
    then show ?thesis by simp
  next
    assume b: "?body evs = (Inr res, evs1)"
    from py_bind_Inr [OF b] obtain img e1 where
      b1: "py_bind (py_lift (lib_resize_fit sc img)) (\<lambda>img_1280.
        py_bind (py_lift (lib_resize_40 sc img)) (\<lambda>img_40.
        py_bind (trace (Race (map fst (candidates_of img img_1280 img_40)))) (\<lambda>_.
          case try_decode_parallel sc (candidates_of img img_1280 img_40) of
            Some (qr_code, method) \<Rightarrow> detected sc r qr_code
          | None \<Rightarrow>
              py_bind (enhance_image_ai sc img_1280) (\<lambda>enhanced_images.
              decode_enhanced sc r 1 (tl enhanced_images))))) e1 = (Inr res, evs1)" by blast
    from py_bind_Inr [OF b1] obtain img_1280 e2 where
      b2: "py_bind (py_lift (lib_resize_40 sc img)) (\<lambda>img_40.
        py_bind (trace (Race (map fst (candidates_of img img_1280 img_40)))) (\<lambda>_.
          case try_decode_parallel sc (candidates_of img img_1280 img_40) of
            Some (qr_code, method) \<Rightarrow> detected sc r qr_code
          | None \<Rightarrow>
              py_bind (enhance_image_ai sc img_1280) (\<lambda>enhanced_images.
              decode_enhanced sc r 1 (tl enhanced_images)))) e2 = (Inr res, evs1)" by blast
    from py_bind_Inr [OF b2] obtain img_40 e3 where
      b3: "py_bind (trace (Race (map fst (candidates_of img img_1280 img_40)))) (\<lambda>_.
          case try_decode_parallel sc (candidates_of img img_1280 img_40) of
            Some (qr_code, method) \<Rightarrow> detected sc r qr_code
          | None \<Rightarrow>
              py_bind (enhance_image_ai sc img_1280) (\<lambda>enhanced_images.
              decode_enhanced sc r 1 (tl enhanced_images))) e3 = (Inr res, evs1)" by blast
    from py_bind_Inr [OF b3] obtain e4 where
      b4: "(case try_decode_parallel sc (candidates_of img img_1280 img_40) of
            Some (qr_code, method) \<Rightarrow> detected sc r qr_code
          | None \<Rightarrow>
              py_bind (enhance_image_ai sc img_1280) (\<lambda>enhanced_images.
              decode_enhanced sc r 1 (tl enhanced_images))) e4 = (Inr res, evs1)" by blast
    show ?thesis
    proof (cases "try_decode_parallel sc (candidates_of img img_1280 img_40)")
      case None
      with b4 have "py_bind (enhance_image_ai sc img_1280) (\<lambda>enhanced_images.
              decode_enhanced sc r 1 (tl enhanced_images)) e4 = (Inr res, evs1)" by simp
      from py_bind_Inr [OF this] obtain en e5 where
        "decode_enhanced sc r 1 (tl en) e5 = (Inr res, evs1)" by blast
      with decode_enhanced_returns [of sc r 1 "tl en" e5] show ?thesis by auto
    next
      case (Some qm)
      obtain q m where qm: "qm = (q, m)" by (cases qm)
      from Some qm b4 have "detected sc r q e4 = (Inr res, evs1)" by simp
      with detected_returns [of sc r q e4] have "res = Some q" by auto
      with try_decode_parallel_marked Some qm show ?thesis by auto
    qed
  qed
  with eq show ?thesis by blast
qed

text \<open>
  Claim C1. A string \<open>P\<close> that fails the marker test is never what a decode returns:
  not from \<^verbatim>\<open>try_decode_qr\<close> of either scanner, not from the race, whatever the
  order of completion, and not from \<^verbatim>\<open>scan_region\<close>, which always returns (a
  payload or \<open>None\<close>) and never raises. The marker test holds exactly of the strings
  that contain \<open>KURO\<close>.
\<close>

theorem unmarked_payload_never_returned:
  "(\<not> is_game_qr P \<longrightarrow>
       try_decode_qr sc img \<noteq> Some P
     \<and> plain_try_decode_qr sc img \<noteq> Some P
     \<and> try_decode_parallel sc images \<noteq> Some (P, method_name)
     \<and> (\<exists>res evs1. scan_region sc r evs = (Inr res, evs1) \<and> res \<noteq> Some P))
   \<and> (is_game_qr P \<longleftrightarrow> (\<exists>a b. P = a @ ''KURO'' @ b))"
proof (intro conjI impI)
  assume n: "\<not> is_game_qr P"
  show "try_decode_qr sc img \<noteq> Some P" using n try_decode_qr_marked [of sc img P] by auto
  show "plain_try_decode_qr sc img \<noteq> Some P"
    using n pyzbar_decode_marked [of sc img P] unfolding plain_try_decode_qr_def by auto
  show "try_decode_parallel sc images \<noteq> Some (P, method_name)"
    using n try_decode_parallel_marked [of sc images P method_name] by auto
  from scan_region_returns [of sc r evs] n
  show "\<exists>res evs1. scan_region sc r evs = (Inr res, evs1) \<and> res \<noteq> Some P" by auto
next
  show "is_game_qr P \<longleftrightarrow> (\<exists>a b. P = a @ ''KURO'' @ b)" by (rule is_game_qr_iff)
qed

theorem unmarked_payload_never_returned_witness:
  "\<not> is_game_qr ''https://example.com/promo''
   \<and> lib_pyzbar noise_scanner 1 = Inr [Inr ''https://example.com/promo'']
   \<and> try_decode_qr noise_scanner 1 = None
   \<and> plain_try_decode_qr noise_scanner 1 = None
   \<and> try_decode_parallel noise_scanner (candidates_of 1 2 3) = None
   \<and> fst (scan_region noise_scanner (0, 0, 800, 800) []) = Inr None"
  using unmarked_payload_never_returned
    [where P = "''https://example.com/promo''" and sc = noise_scanner and img = 1
       and images = "candidates_of 1 2 3" and method_name = "''original''"
       and r = "(0, 0, 800, 800)" and evs = "[]"]
  by (simp add: is_game_qr_def noise_scanner_def try_decode_qr_def plain_try_decode_qr_def
        wechat_decode_def pyzbar_decode_def try_decode_parallel_def candidates_of_def
        scan_region_def grab_def grab_fast_def grab_pil_def shot_def enhance_image_ai_def
        enhance_image_basic_def detected_def
        py_bind_def py_try_def py_lift_def py_return_def trace_def)

lemma py_try_Inr: "fst (m s) = Inr x \<Longrightarrow> py_try m h s = m s"
  by (cases "m s") (simp add: py_try_def)

lemma candidate_names:
  "map fst (candidates_of img img_1280 img_40) = [''original'', ''1280x720'', ''40%'']"
  by (simp add: candidates_of_def)

lemma try_decode_qr_nonempty: "try_decode_qr sc img \<noteq> Some []"
proof
  assume "try_decode_qr sc img = Some []"
  then have "is_game_qr []" by (rule try_decode_qr_marked)
  then show False by (simp add: is_game_qr_def)
qed

lemma first_decoded_None:
  "first_decoded sc xs = None \<longleftrightarrow> (\<forall>c \<in> set xs. try_decode_qr sc (snd c) = None)"
proof (induction sc xs rule: first_decoded.induct)
  case (1 sc)
  then show ?case by simp
next
  case (2 sc method_name img rest)
  show ?case
  proof (cases "try_decode_qr sc img")
    case None
    with 2 show ?thesis by simp
  next
    case (Some q)
    with try_decode_qr_nonempty [of sc img] have "q \<noteq> []" by auto
    with Some show ?thesis by simp
  qed
qed

lemma race_finds_nothing:
  "set (as_completed sc images) = set images \<Longrightarrow>
     try_decode_parallel sc images = None \<longleftrightarrow> (\<forall>c \<in> set images. try_decode_qr sc (snd c) = None)"
  by (simp add: try_decode_parallel_def first_decoded_None)

lemma decode_enhanced_hit:
  "try_decode_qr sc x = Some q \<Longrightarrow>
     decode_enhanced sc r idx (x # rest) evs = detected sc r q (evs @ [DecodeOne idx])"
  using try_decode_qr_nonempty [of sc x] by (auto simp: py_bind_def trace_def)

lemma decode_enhanced_miss:
  "try_decode_qr sc x = None \<Longrightarrow>
     decode_enhanced sc r idx (x # rest) evs
       = decode_enhanced sc r (Suc idx) rest (evs @ [DecodeOne idx])"
  by (simp add: py_bind_def trace_def)

lemma decode_enhanced_Inr: "\<exists>res. fst (decode_enhanced sc r idx xs evs) = Inr res"
  using decode_enhanced_returns [of sc r idx xs evs] by auto

lemma detected_Inr: "fst (detected sc r q evs) = Inr (Some q)"
  using detected_returns [of sc r q evs] by auto

lemma scan_region_prepared:
  assumes "grab sc r evs = (Inr img, evs0)" "lib_resize_fit sc img = Inr img_1280"
    "lib_resize_40 sc img = Inr img_40"
  shows "scan_region sc r evs
     = py_try
         (case try_decode_parallel sc (candidates_of img img_1280 img_40) of
            Some (qr_code, method) \<Rightarrow> detected sc r qr_code
          | None \<Rightarrow>
              py_bind (enhance_image_ai sc img_1280) (\<lambda>enhanced_images.
              decode_enhanced sc r 1 (tl enhanced_images)))
         (\<lambda>e. py_return None)
         (evs0 @ [Race [''original'', ''1280x720'', ''40%'']])"
  using assms
  by (simp add: scan_region_def py_try_bind py_lift_def trace_def candidate_names)

lemma scan_region_race_hit:
  assumes "grab sc r evs = (Inr img, evs0)" "lib_resize_fit sc img = Inr img_1280"
    "lib_resize_40 sc img = Inr img_40"
    and hit: "try_decode_parallel sc (candidates_of img img_1280 img_40) = Some (q, m)"
  shows "scan_region sc r evs = detected sc r q (evs0 @ [Race [''original'', ''1280x720'', ''40%'']])"
  using hit by (simp add: scan_region_prepared [OF assms(1-3)] py_try_Inr [OF detected_Inr])

lemma scan_region_enhanced:
  assumes "grab sc r evs = (Inr img, evs0)" "lib_resize_fit sc img = Inr img_1280"
    "lib_resize_40 sc img = Inr img_40"
    and miss: "try_decode_parallel sc (candidates_of img img_1280 img_40) = None"
    and en: "enhance_image_ai sc img_1280 (evs0 @ [Race [''original'', ''1280x720'', ''40%'']])
               = (Inr enhanced_images, evs1)"
  shows "scan_region sc r evs = decode_enhanced sc r 1 (tl enhanced_images) evs1"
proof -
  obtain res where "fst (decode_enhanced sc r 1 (tl enhanced_images) evs1) = Inr res"
    using decode_enhanced_Inr by blast
  then have "fst (py_bind (enhance_image_ai sc img_1280) (\<lambda>enhanced_images.
              decode_enhanced sc r 1 (tl enhanced_images))
                (evs0 @ [Race [''original'', ''1280x720'', ''40%'']])) = Inr res"
    using en by (simp add: py_bind_def)
  then have "py_try (py_bind (enhance_image_ai sc img_1280) (\<lambda>enhanced_images.
              decode_enhanced sc r 1 (tl enhanced_images))) (\<lambda>e. py_return None)
                (evs0 @ [Race [''original'', ''1280x720'', ''40%'']])
       = py_bind (enhance_image_ai sc img_1280) (\<lambda>enhanced_images.
              decode_enhanced sc r 1 (tl enhanced_images))
                (evs0 @ [Race [''original'', ''1280x720'', ''40%'']])"
    by (rule py_try_Inr)
  with miss en show ?thesis
    by (simp add: scan_region_prepared [OF assms(1-3)] py_bind_def)
qed

lemma enhance_opencv_no_sr:
  assumes "OPENCV_AVAILABLE sc" "sr_net sc = None"
    "lib_to_cv sc img = Inr img_cv" "lib_to_gray sc img = Inr gray"
    "lib_adaptive_threshold sc gray = Inr binary"
  shows "enhance_image_ai sc img evs
     = (Inr [img, binary], evs @ [EnhanceImageAi, Computed ''binary''])"
  using assms
  by (simp add: enhance_image_ai_def py_bind_def py_try_def py_lift_def py_return_def trace_def)

lemma enhance_opencv_sr:
  assumes "OPENCV_AVAILABLE sc" "sr_net sc = Some forward"
    "lib_to_cv sc img = Inr img_cv" "lib_to_gray sc img = Inr gray"
    "lib_adaptive_threshold sc gray = Inr binary"
    "lib_bgr_to_gray sc (apply_super_resolution sc img_cv) = Inr sr_gray"
  shows "enhance_image_ai sc img evs
     = (Inr [img, binary, sr_gray], evs @ [EnhanceImageAi, Computed ''binary'', Computed ''sr''])"
  using assms
  by (simp add: enhance_image_ai_def py_bind_def py_try_def py_lift_def py_return_def trace_def)

lemma enhance_without_opencv:
  "\<not> OPENCV_AVAILABLE sc \<Longrightarrow>
     enhance_image_ai sc img evs = enhance_image_basic sc img (evs @ [EnhanceImageAi])"
  by (simp add: enhance_image_ai_def py_bind_def trace_def)

lemma enhance_image_basic_no_binary:
  "\<exists>en evs1. enhance_image_basic sc img evs = (Inr (img # en), evs @ evs1)
      \<and> set evs1 \<subseteq> {Computed ''contrast'', Computed ''sharpness'', Computed ''combined''}
      \<and> length en \<le> 3
      \<and> (\<forall>x \<in> set en. (\<exists>f. lib_contrast sc f img = Inr x) \<or> (\<exists>f y. lib_sharpness sc f y = Inr x))"
proof (cases "lib_contrast sc 2.0 img")
  case (Inl e)
  then show ?thesis
    by (simp add: enhance_image_basic_def py_bind_def py_try_def py_lift_def py_return_def)
next
  case c: (Inr c)
  show ?thesis
  proof (cases "lib_sharpness sc 2.0 img")
    case (Inl e)
    with c show ?thesis
      by (auto simp: enhance_image_basic_def py_bind_def py_try_def py_lift_def py_return_def
            trace_def)
  next
    case s: (Inr s)
    show ?thesis
    proof (cases "lib_contrast sc 1.8 img")
      case (Inl e)
      with c s show ?thesis
        by (auto simp: enhance_image_basic_def py_bind_def py_try_def py_lift_def py_return_def
              trace_def)
    next
      case t: (Inr temp)
      show ?thesis
      proof (cases "lib_sharpness sc 1.8 temp")
        case (Inl e)
        with c s t show ?thesis
          by (auto simp: enhance_image_basic_def py_bind_def py_try_def py_lift_def py_return_def
                trace_def)
      next
        case (Inr temp2)
        with c s t show ?thesis
          by (auto simp: enhance_image_basic_def py_bind_def py_try_def py_lift_def py_return_def
                trace_def)
      qed
    qed
  qed
qed

lemma enhance_image_basic_all:
  assumes "lib_contrast sc 2.0 img = Inr c" "lib_sharpness sc 2.0 img = Inr s"
    "lib_contrast sc 1.8 img = Inr temp" "lib_sharpness sc 1.8 temp = Inr temp2"
  shows "enhance_image_basic sc img evs
     = (Inr [img, c, s, temp2],
        evs @ [Computed ''contrast'', Computed ''sharpness'', Computed ''combined''])"
  using assms
  by (simp add: enhance_image_basic_def py_bind_def py_try_def py_lift_def py_return_def trace_def)

lemma detected_eq:
  "detected sc (x, y, w, h) q evs
     = (Inr (Some q), evs @ (if ROI_DETECTOR_AVAILABLE sc then [RoiAddDetection x y w h] else []))"
  by (simp add: detected_def py_bind_def py_return_def trace_def)

lemma scan_region_basic:
  assumes p: "prepared sc r evs img evs0 img_1280 img_40"
    and miss: "try_decode_parallel sc (candidates_of img img_1280 img_40) = None"
    and no: "\<not> OPENCV_AVAILABLE sc"
  shows "\<exists>en evs1. scan_region sc r evs
          = decode_enhanced sc r 1 en (raced evs0 @ [EnhanceImageAi] @ evs1)
      \<and> set evs1 \<subseteq> {Computed ''contrast'', Computed ''sharpness'', Computed ''combined''}
      \<and> length en \<le> 3
      \<and> (\<forall>x \<in> set en. (\<exists>f. lib_contrast sc f img_1280 = Inr x)
                          \<or> (\<exists>f y. lib_sharpness sc f y = Inr x))"
proof -
  from enhance_image_basic_no_binary [of sc img_1280 "raced evs0 @ [EnhanceImageAi]"]
  obtain en evs1 where
    b: "enhance_image_basic sc img_1280 (raced evs0 @ [EnhanceImageAi])
          = (Inr (img_1280 # en), (raced evs0 @ [EnhanceImageAi]) @ evs1)"
    and s: "set evs1 \<subseteq> {Computed ''contrast'', Computed ''sharpness'', Computed ''combined''}"
      "length en \<le> 3"
      "\<forall>x \<in> set en. (\<exists>f. lib_contrast sc f img_1280 = Inr x)
                          \<or> (\<exists>f y. lib_sharpness sc f y = Inr x)"
    by blast
  from b have e: "enhance_image_ai sc img_1280 (evs0 @ [Race [''original'', ''1280x720'', ''40%'']])
      = (Inr (img_1280 # en), raced evs0 @ [EnhanceImageAi] @ evs1)"
    by (simp add: enhance_without_opencv [OF no] raced_def)
  from p have "grab sc r evs = (Inr img, evs0)" "lib_resize_fit sc img = Inr img_1280"
    "lib_resize_40 sc img = Inr img_40" by (simp_all add: prepared_def)
  from scan_region_enhanced [OF this miss e]
  have "scan_region sc r evs = decode_enhanced sc r 1 en (raced evs0 @ [EnhanceImageAi] @ evs1)"
    by simp
  with s show ?thesis by blast
qed

lemma scan_region_basic_all:
  assumes p: "prepared sc r evs img evs0 img_1280 img_40"
    and miss: "try_decode_parallel sc (candidates_of img img_1280 img_40) = None"
    and no: "\<not> OPENCV_AVAILABLE sc"
    and steps: "lib_contrast sc 2.0 img_1280 = Inr c" "lib_sharpness sc 2.0 img_1280 = Inr s"
      "lib_contrast sc 1.8 img_1280 = Inr temp" "lib_sharpness sc 1.8 temp = Inr temp2"
  shows "scan_region sc r evs
     = decode_enhanced sc r 1 [c, s, temp2]
         (raced evs0 @ [EnhanceImageAi, Computed ''contrast'', Computed ''sharpness'',
                        Computed ''combined''])"
proof -
  from enhance_image_basic_all [OF steps, of "raced evs0 @ [EnhanceImageAi]"]
  have e: "enhance_image_ai sc img_1280 (evs0 @ [Race [''original'', ''1280x720'', ''40%'']])
      = (Inr [img_1280, c, s, temp2],
         raced evs0 @ [EnhanceImageAi, Computed ''contrast'', Computed ''sharpness'',
                        Computed ''combined''])"
    by (simp add: enhance_without_opencv [OF no] raced_def)
  from p have "grab sc r evs = (Inr img, evs0)" "lib_resize_fit sc img = Inr img_1280"
    "lib_resize_40 sc img = Inr img_40" by (simp_all add: prepared_def)
  from scan_region_enhanced [OF this miss e] show ?thesis by simp
qed

text \<open>
  Claim C8, as the code has it. Once the screenshot and the two resizes have gone
  through, the scan races exactly the three candidates named \<open>original\<close>,
  \<open>1280x720\<close> and \<open>40%\<close>; with every candidate completing, the race finds nothing
  exactly when none of the three decodes. When the race finds a payload the scan
  returns it and logs nothing of the enhancement. When it finds nothing, the
  enhancement of the fitted picture is computed and its candidates are decoded one
  after the other, in list order, up to the first that decodes. With OpenCV, and the
  steps going through, the candidates are the adaptive binarization and, only when
  \<^verbatim>\<open>sr_net\<close> is loaded, the gray super-resolution picture. Without OpenCV, and the
  filters going through, the candidates are exactly three pictures, in this order:
  the contrast of the fitted picture at factor 2.0, its sharpness at factor 2.0, and
  the sharpness at 1.8 of its contrast at 1.8, and nothing else is computed. Without
  OpenCV and whatever the filters do, there are at most three candidates, each the
  result of a contrast or of a sharpness filter, and no binarization and no
  super-resolution is computed.
\<close>

theorem cheap_candidates_before_enhancement:
  "(prepared sc r evs img evs0 img_1280 img_40 \<longrightarrow>
      (set (as_completed sc (candidates_of img img_1280 img_40)) = set (candidates_of img img_1280 img_40)
         \<longrightarrow> (try_decode_parallel sc (candidates_of img img_1280 img_40) = None
               \<longleftrightarrow> (\<forall>c \<in> set (candidates_of img img_1280 img_40). try_decode_qr sc (snd c) = None)))
    \<and> (try_decode_parallel sc (candidates_of img img_1280 img_40) = Some (q, m)
         \<longrightarrow> scan_region sc r evs = detected sc r q (raced evs0))
    \<and> (try_decode_parallel sc (candidates_of img img_1280 img_40) = None
          \<and> OPENCV_AVAILABLE sc \<and> sr_net sc = None
          \<and> lib_to_cv sc img_1280 = Inr img_cv \<and> lib_to_gray sc img_1280 = Inr gray
          \<and> lib_adaptive_threshold sc gray = Inr binary
         \<longrightarrow> scan_region sc r evs
              = decode_enhanced sc r 1 [binary] (raced evs0 @ [EnhanceImageAi, Computed ''binary'']))
    \<and> (try_decode_parallel sc (candidates_of img img_1280 img_40) = None
          \<and> OPENCV_AVAILABLE sc \<and> sr_net sc = Some forward
          \<and> lib_to_cv sc img_1280 = Inr img_cv \<and> lib_to_gray sc img_1280 = Inr gray
          \<and> lib_adaptive_threshold sc gray = Inr binary
          \<and> lib_bgr_to_gray sc (apply_super_resolution sc img_cv) = Inr sr_gray
         \<longrightarrow> scan_region sc r evs
              = decode_enhanced sc r 1 [binary, sr_gray]
                  (raced evs0 @ [EnhanceImageAi, Computed ''binary'', Computed ''sr'']))
    \<and> (try_decode_parallel sc (candidates_of img img_1280 img_40) = None \<and> \<not> OPENCV_AVAILABLE sc
          \<and> lib_contrast sc 2.0 img_1280 = Inr contrast \<and> lib_sharpness sc 2.0 img_1280 = Inr sharp
          \<and> lib_contrast sc 1.8 img_1280 = Inr temp \<and> lib_sharpness sc 1.8 temp = Inr combined
         \<longrightarrow> scan_region sc r evs
              = decode_enhanced sc r 1 [contrast, sharp, combined]
                  (raced evs0 @ [EnhanceImageAi, Computed ''contrast'', Computed ''sharpness'',
                                 Computed ''combined'']))
    \<and> (try_decode_parallel sc (candidates_of img img_1280 img_40) = None \<and> \<not> OPENCV_AVAILABLE sc
         \<longrightarrow> (\<exists>en evs1. scan_region sc r evs
                  = decode_enhanced sc r 1 en (raced evs0 @ [EnhanceImageAi] @ evs1)
               \<and> set evs1 \<subseteq> {Computed ''contrast'', Computed ''sharpness'', Computed ''combined''}
               \<and> length en \<le> 3
               \<and> (\<forall>x \<in> set en. (\<exists>f. lib_contrast sc f img_1280 = Inr x)
                                   \<or> (\<exists>f y. lib_sharpness sc f y = Inr x)))))
   \<and> (try_decode_qr sc x = Some q2
        \<longrightarrow> decode_enhanced sc r idx (x # rest) evs2 = detected sc r q2 (evs2 @ [DecodeOne idx]))
   \<and> (try_decode_qr sc x = None
        \<longrightarrow> decode_enhanced sc r idx (x # rest) evs2
             = decode_enhanced sc r (Suc idx) rest (evs2 @ [DecodeOne idx]))
   \<and> decode_enhanced sc r idx [] evs2 = (Inr None, evs2)
   \<and> detected sc (rx, ry, rw, rh) q evs2
       = (Inr (Some q), evs2 @ (if ROI_DETECTOR_AVAILABLE sc then [RoiAddDetection rx ry rw rh] else []))"
proof (intro conjI impI)
  assume p: "prepared sc r evs img evs0 img_1280 img_40"
  then have g: "grab sc r evs = (Inr img, evs0)" "lib_resize_fit sc img = Inr img_1280"
    "lib_resize_40 sc img = Inr img_40" by (simp_all add: prepared_def)
  {
    assume "set (as_completed sc (candidates_of img img_1280 img_40)) = set (candidates_of img img_1280 img_40)"
    then show "try_decode_parallel sc (candidates_of img img_1280 img_40) = None
               \<longleftrightarrow> (\<forall>c \<in> set (candidates_of img img_1280 img_40). try_decode_qr sc (snd c) = None)"
      by (rule race_finds_nothing)
  }
  {
    assume "try_decode_parallel sc (candidates_of img img_1280 img_40) = Some (q, m)"
    from scan_region_race_hit [OF g this]
    show "scan_region sc r evs = detected sc r q (raced evs0)" by (simp add: raced_def)
  }
  {
    assume a: "try_decode_parallel sc (candidates_of img img_1280 img_40) = None
          \<and> OPENCV_AVAILABLE sc \<and> sr_net sc = None
          \<and> lib_to_cv sc img_1280 = Inr img_cv \<and> lib_to_gray sc img_1280 = Inr gray
          \<and> lib_adaptive_threshold sc gray = Inr binary"
    then have "enhance_image_ai sc img_1280 (evs0 @ [Race [''original'', ''1280x720'', ''40%'']])
        = (Inr [img_1280, binary],
           (evs0 @ [Race [''original'', ''1280x720'', ''40%'']]) @ [EnhanceImageAi, Computed ''binary''])"
      using enhance_opencv_no_sr [of sc img_1280 img_cv gray binary
          "evs0 @ [Race [''original'', ''1280x720'', ''40%'']]"]
      by simp
    from scan_region_enhanced [OF g _ this] a
    show "scan_region sc r evs
              = decode_enhanced sc r 1 [binary] (raced evs0 @ [EnhanceImageAi, Computed ''binary''])"
      by (simp add: raced_def)
  }
  {
    assume a: "try_decode_parallel sc (candidates_of img img_1280 img_40) = None
          \<and> OPENCV_AVAILABLE sc \<and> sr_net sc = Some forward
          \<and> lib_to_cv sc img_1280 = Inr img_cv \<and> lib_to_gray sc img_1280 = Inr gray
          \<and> lib_adaptive_threshold sc gray = Inr binary
          \<and> lib_bgr_to_gray sc (apply_super_resolution sc img_cv) = Inr sr_gray"
    then have "enhance_image_ai sc img_1280 (evs0 @ [Race [''original'', ''1280x720'', ''40%'']])
        = (Inr [img_1280, binary, sr_gray],
           (evs0 @ [Race [''original'', ''1280x720'', ''40%'']])
             @ [EnhanceImageAi, Computed ''binary'', Computed ''sr''])"
      using enhance_opencv_sr [of sc forward img_1280 img_cv gray binary sr_gray
          "evs0 @ [Race [''original'', ''1280x720'', ''40%'']]"]
      by simp
    from scan_region_enhanced [OF g _ this] a
    show "scan_region sc r evs
              = decode_enhanced sc r 1 [binary, sr_gray]
                  (raced evs0 @ [EnhanceImageAi, Computed ''binary'', Computed ''sr''])"
      by (simp add: raced_def)
  }
  {
    assume a: "try_decode_parallel sc (candidates_of img img_1280 img_40) = None \<and> \<not> OPENCV_AVAILABLE sc
          \<and> lib_contrast sc 2.0 img_1280 = Inr contrast \<and> lib_sharpness sc 2.0 img_1280 = Inr sharp
          \<and> lib_contrast sc 1.8 img_1280 = Inr temp \<and> lib_sharpness sc 1.8 temp = Inr combined"
    then have mi: "try_decode_parallel sc (candidates_of img img_1280 img_40) = None"
      and no: "\<not> OPENCV_AVAILABLE sc"
      and st: "lib_contrast sc 2.0 img_1280 = Inr contrast" "lib_sharpness sc 2.0 img_1280 = Inr sharp"
        "lib_contrast sc 1.8 img_1280 = Inr temp" "lib_sharpness sc 1.8 temp = Inr combined"
      by simp_all
    from scan_region_basic_all [OF p mi no st]
    show "scan_region sc r evs
              = decode_enhanced sc r 1 [contrast, sharp, combined]
                  (raced evs0 @ [EnhanceImageAi, Computed ''contrast'', Computed ''sharpness'',
                                 Computed ''combined''])" .
  }
  {
    assume "try_decode_parallel sc (candidates_of img img_1280 img_40) = None \<and> \<not> OPENCV_AVAILABLE sc"
    then have mi: "try_decode_parallel sc (candidates_of img img_1280 img_40) = None"
      and no: "\<not> OPENCV_AVAILABLE sc" by simp_all
    from scan_region_basic [OF p mi no]
    show "\<exists>en evs1. scan_region sc r evs
                  = decode_enhanced sc r 1 en (raced evs0 @ [EnhanceImageAi] @ evs1)
               \<and> set evs1 \<subseteq> {Computed ''contrast'', Computed ''sharpness'', Computed ''combined''}
               \<and> length en \<le> 3
               \<and> (\<forall>x \<in> set en. (\<exists>f. lib_contrast sc f img_1280 = Inr x)
                                   \<or> (\<exists>f y. lib_sharpness sc f y = Inr x))" .
  }
next
  assume "try_decode_qr sc x = Some q2"
  then show "decode_enhanced sc r idx (x # rest) evs2 = detected sc r q2 (evs2 @ [DecodeOne idx])"
    by (rule decode_enhanced_hit)
next
  assume "try_decode_qr sc x = None"
  then show "decode_enhanced sc r idx (x # rest) evs2
             = decode_enhanced sc r (Suc idx) rest (evs2 @ [DecodeOne idx])"
    by (rule decode_enhanced_miss)
next
  show "decode_enhanced sc r idx [] evs2 = (Inr None, evs2)" by (simp add: py_return_def)
next
  show "detected sc (rx, ry, rw, rh) q evs2
       = (Inr (Some q), evs2 @ (if ROI_DETECTOR_AVAILABLE sc then [RoiAddDetection rx ry rw rh] else []))"
    by (rule detected_eq)
qed

lemmas scanner_eval =
  noise_scanner_def blurred_scanner_def sharp_scanner_def model_scanner_def example_qr_def
  is_game_qr_def try_decode_qr_def wechat_decode_def pyzbar_decode_def try_decode_parallel_def
  candidates_of_def scan_region_def grab_def grab_fast_def grab_pil_def shot_def
  enhance_image_ai_def enhance_image_basic_def apply_super_resolution_def detected_def
  prepared_def raced_def
  py_bind_def py_try_def py_lift_def py_return_def trace_def

text \<open>
  The claim as stated has the adaptive binarization computed always. Without OpenCV
  the race fails and no binarization is computed: the scan falls back on the basic
  enhancement.
\<close>

theorem no_binarization_without_opencv:
  "try_decode_parallel noise_scanner (candidates_of 1 2 3) = None
   \<and> scan_region noise_scanner (0, 0, 800, 800) []
       = (Inr None,
          [Screenshot ''PIL'', Race [''original'', ''1280x720'', ''40%''], EnhanceImageAi,
           Computed ''contrast'', Computed ''sharpness'', Computed ''combined'',
           DecodeOne 1, DecodeOne 2, DecodeOne 3])
   \<and> Computed ''binary'' \<notin> set (snd (scan_region noise_scanner (0, 0, 800, 800) []))"
  by (simp add: scanner_eval)

theorem cheap_candidates_before_enhancement_witness:
  "prepared sharp_scanner (0, 0, 800, 800) [] 1 [Screenshot ''PIL''] 2 3
   \<and> try_decode_parallel sharp_scanner (candidates_of 1 2 3) = Some (example_qr, ''40%'')
   \<and> scan_region sharp_scanner (0, 0, 800, 800) []
      = (Inr (Some example_qr),
         [Screenshot ''PIL'', Race [''original'', ''1280x720'', ''40%''], RoiAddDetection 0 0 800 800])
   \<and> prepared blurred_scanner (0, 0, 800, 800) [] 1 [Screenshot ''PIL''] 2 3
   \<and> try_decode_parallel blurred_scanner (candidates_of 1 2 3) = None
   \<and> OPENCV_AVAILABLE blurred_scanner \<and> sr_net blurred_scanner = None
   \<and> lib_adaptive_threshold blurred_scanner 22 = Inr 31
   \<and> try_decode_qr blurred_scanner 31 = Some example_qr
   \<and> scan_region blurred_scanner (0, 0, 800, 800) []
      = (Inr (Some example_qr),
         [Screenshot ''PIL'', Race [''original'', ''1280x720'', ''40%''], EnhanceImageAi,
          Computed ''binary'', DecodeOne 1, RoiAddDetection 0 0 800 800])
   \<and> prepared model_scanner (0, 0, 800, 800) [] 1 [Screenshot ''PIL''] 2 3
   \<and> scan_region model_scanner (0, 0, 800, 800) []
      = (Inr (Some example_qr),
         [Screenshot ''PIL'', Race [''original'', ''1280x720'', ''40%''], EnhanceImageAi,
          Computed ''binary'', Computed ''sr'', DecodeOne 1, RoiAddDetection 0 0 800 800])
   \<and> prepared noise_scanner (0, 0, 800, 800) [] 1 [Screenshot ''PIL''] 2 3
   \<and> try_decode_parallel noise_scanner (candidates_of 1 2 3) = None
   \<and> \<not> OPENCV_AVAILABLE noise_scanner
   \<and> lib_contrast noise_scanner 2.0 2 = Inr 41 \<and> lib_sharpness noise_scanner 2.0 2 = Inr 42
   \<and> lib_contrast noise_scanner 1.8 2 = Inr 43 \<and> lib_sharpness noise_scanner 1.8 43 = Inr 44
   \<and> scan_region noise_scanner (0, 0, 800, 800) []
      = decode_enhanced noise_scanner (0, 0, 800, 800) 1 [41, 42, 44]
          [Screenshot ''PIL'', Race [''original'', ''1280x720'', ''40%''], EnhanceImageAi,
           Computed ''contrast'', Computed ''sharpness'', Computed ''combined'']
   \<and> try_decode_qr noise_scanner 41 = None
   \<and> fst (scan_region noise_scanner (0, 0, 800, 800) []) = Inr None"
  using cheap_candidates_before_enhancement
    [where sc = sharp_scanner and r = "(0, 0, 800, 800)" and evs = "[]" and img = 1
       and ?evs0.0 = "[Screenshot ''PIL'']" and ?img_1280.0 = 2 and ?img_40.0 = 3
       and q = example_qr and m = "''40%''"]
    cheap_candidates_before_enhancement
    [where sc = blurred_scanner and r = "(0, 0, 800, 800)" and evs = "[]" and img = 1
       and ?evs0.0 = "[Screenshot ''PIL'']" and ?img_1280.0 = 2 and ?img_40.0 = 3
       and img_cv = 12 and gray = 22 and binary = 31
       and x = 31 and ?q2.0 = example_qr and idx = 1 and rest = "[]"
       and ?evs2.0 = "[Screenshot ''PIL'', Race [''original'', ''1280x720'', ''40%''], EnhanceImageAi,
          Computed ''binary'']"]
    cheap_candidates_before_enhancement
    [where sc = model_scanner and r = "(0, 0, 800, 800)" and evs = "[]" and img = 1
       and ?evs0.0 = "[Screenshot ''PIL'']" and ?img_1280.0 = 2 and ?img_40.0 = 3
       and img_cv = 12 and gray = 22 and binary = 31 and forward = "\<lambda>i. Inr 50" and sr_gray = 32]
    cheap_candidates_before_enhancement
    [where sc = noise_scanner and r = "(0, 0, 800, 800)" and evs = "[]" and img = 1
       and ?evs0.0 = "[Screenshot ''PIL'']" and ?img_1280.0 = 2 and ?img_40.0 = 3
       and contrast = 41 and sharp = 42 and temp = 43 and combined = 44
       and x = 41 and idx = 1 and rest = "[]" and ?evs2.0 = "[]"]
  by (simp add: scanner_eval)

section \<open>Properties of the ROI predictor\<close>












end
